theory Spec2Isabelle
  imports Complex_Main "HOL-Library.Word"
begin

section \<open>Values\<close>

text \<open>
  The values \<^verbatim>\<open>json.loads\<close> produces and \<^verbatim>\<open>json.dumps\<close> accepts. A Python dict with
  string keys is a map; Python's \<^verbatim>\<open>None\<close> is \<open>JNull\<close>. Strings are sequences of
  characters with code points below 256. Floats are never inspected by the handlers.
  \<open>JDecimal\<close> is Python's \<^verbatim>\<open>decimal.Decimal\<close>: \<^verbatim>\<open>json.loads\<close> never produces one, the
  DynamoDB table resource returns one for every stored number, and \<^verbatim>\<open>json.dumps\<close>
  does not accept one.
\<close>

datatype json =
    JNull
  | JBool bool
  | JInt int
  | JFloat real
  | JDecimal real
  | JStr string
  | JList "json list"
  | JDict "string \<Rightarrow> json option"

type_synonym pydict = "string \<Rightarrow> json option"

text \<open>A value holds a \<^verbatim>\<open>Decimal\<close>, at any depth.\<close>

inductive has_decimal :: "json \<Rightarrow> bool" where
  "has_decimal (JDecimal r)"
| "x \<in> set xs \<Longrightarrow> has_decimal x \<Longrightarrow> has_decimal (JList xs)"
| "d k = Some v \<Longrightarrow> has_decimal v \<Longrightarrow> has_decimal (JDict d)"

text \<open>A value holds a number (an int, a float or a \<^verbatim>\<open>Decimal\<close>), at any depth.\<close>

inductive has_number :: "json \<Rightarrow> bool" where
  "has_number (JInt n)"
| "has_number (JFloat r)"
| "has_number (JDecimal r)"
| "x \<in> set xs \<Longrightarrow> has_number x \<Longrightarrow> has_number (JList xs)"
| "d k = Some v \<Longrightarrow> has_number v \<Longrightarrow> has_number (JDict d)"

text \<open>The exceptions the code raises, catches or lets through.\<close>

datatype exn =
    ClientError string string
  | RuntimeError string
  | ValueError string
  | TypeError string
  | AttributeError string
  | OtherException string

text \<open>\<^verbatim>\<open>str(exc)\<close>; a \<open>ClientError code text\<close> carries its error code and its text.\<close>

fun str_exn :: "exn \<Rightarrow> string" where
  "str_exn (ClientError c m) = m"
| "str_exn (RuntimeError m) = m"
| "str_exn (ValueError m) = m"
| "str_exn (TypeError m) = m"
| "str_exn (AttributeError m) = m"
| "str_exn (OtherException m) = m"

section \<open>The world outside the handlers\<close>

text \<open>
  One invocation of a handler sees: the process environment, the random UUID and the
  clock it reads, the JSON and base64 decoders, and the AWS clients. A call of an AWS
  client may raise for reasons that have nothing to do with the table's content
  (throttling, network, credentials, a value the client cannot serialise):
  \<open>aws_fault w n\<close> is the exception, if any, that the call made when \<open>n\<close> calls have
  been made before raises. \<open>page_sizes w\<close> are the sizes of the pages a scan is cut into,
  the remainder being the last page: a page may be empty, and the last page is empty
  when the sizes use up the records.
\<close>

record world =
  getenv :: "string \<Rightarrow> string option"
  uuid4 :: "128 word"
  utcnow_isoformat :: string
  json_loads :: "string \<Rightarrow> json option"
  b64decode_utf8 :: "string \<Rightarrow> string + string"
  aws_fault :: "nat \<Rightarrow> exn option"
  page_sizes :: "nat list"

datatype aws_call =
    PutItem pydict
  | GetItem string
  | Scan "nat option"
  | UpdateItem string string string
  | Publish pydict

text \<open>
  The table maps \<^verbatim>\<open>incident_id\<close> to the item, in scan order; \<open>calls\<close> is the log of
  the calls made to the AWS clients, oldest first.
\<close>

record cloud =
  table :: "(string \<times> pydict) list"
  calls :: "aws_call list"

definition aws :: "world \<Rightarrow> aws_call \<Rightarrow> cloud \<Rightarrow> exn option \<times> cloud" where
  "aws w c s = (aws_fault w (length (calls s)), s\<lparr>calls := calls s @ [c]\<rparr>)"

subsection \<open>\<^verbatim>\<open>str(uuid.uuid4())\<close>\<close>

definition hex_digit :: "nat \<Rightarrow> char" where
  "hex_digit d = ''0123456789abcdef'' ! (d mod 16)"

definition uuid_hex :: "128 word \<Rightarrow> string" where
  "uuid_hex u = map (\<lambda>i. hex_digit (unat u div 16 ^ i)) (rev [0..<32])"

definition str_uuid :: "128 word \<Rightarrow> string" where
  "str_uuid u =
     (let h = uuid_hex u
      in take 8 h @ ''-'' @ take 4 (drop 8 h) @ ''-'' @ take 4 (drop 12 h) @ ''-''
         @ take 4 (drop 16 h) @ ''-'' @ drop 20 h)"

subsection \<open>The DynamoDB table and the SNS client\<close>

text \<open>
  The two AWS clients are modelled by the contract the adapters rely on: a table keyed
  by \<^verbatim>\<open>incident_id\<close> with a conditional put, a lookup by key, a paginated scan and a
  conditional update, and a publisher that accepts a message or raises. The table
  holds the items as they were written; what the table resource hands back has every
  number turned into a \<^verbatim>\<open>Decimal\<close>. Every call is logged, and raises the fault the
  world schedules for it, if any, before it looks at the table.
\<close>

text \<open>The table resource's deserialiser, on a value and on an item.\<close>

primrec from_dynamo :: "json \<Rightarrow> json" where
  "from_dynamo JNull = JNull"
| "from_dynamo (JBool b) = JBool b"
| "from_dynamo (JInt n) = JDecimal (of_int n)"
| "from_dynamo (JFloat r) = JDecimal r"
| "from_dynamo (JDecimal r) = JDecimal r"
| "from_dynamo (JStr t) = JStr t"
| "from_dynamo (JList xs) = JList (map from_dynamo xs)"
| "from_dynamo (JDict d) = JDict (map_option from_dynamo \<circ> d)"

definition deserialize :: "pydict \<Rightarrow> pydict" where
  "deserialize item = map_option from_dynamo \<circ> item"

text \<open>
  \<^verbatim>\<open>Table.put_item(Item=item, ConditionExpression="attribute_not_exists(incident_id)")\<close>.
\<close>

definition table_put_item :: "world \<Rightarrow> pydict \<Rightarrow> cloud \<Rightarrow> (exn + unit) \<times> cloud" where
  "table_put_item w item s =
     (case aws w (PutItem item) s of
        (Some e, s1) \<Rightarrow> (Inl e, s1)
      | (None, s1) \<Rightarrow>
          (case item ''incident_id'' of
             Some (JStr k) \<Rightarrow>
               if map_of (table s1) k \<noteq> None
               then (Inl (ClientError ''ConditionalCheckFailedException''
                            (''An error occurred (ConditionalCheckFailedException) when ''
                             @ ''calling the PutItem operation: The conditional request failed'')),
                     s1)
               else (Inr (), s1\<lparr>table := table s1 @ [(k, item)]\<rparr>)
           | _ \<Rightarrow> (Inl (ClientError ''ValidationException''
                            (''An error occurred (ValidationException) when calling the ''
                             @ ''PutItem operation: One or more parameter values were invalid'')),
                     s1)))"

text \<open>\<^verbatim>\<open>Table.get_item(Key={"incident_id": incident_id})\<close>; the result is the response's
  \<^verbatim>\<open>Item\<close>, if any.\<close>

definition table_get_item :: "world \<Rightarrow> string \<Rightarrow> cloud \<Rightarrow> (exn + pydict option) \<times> cloud" where
  "table_get_item w k s =
     (case aws w (GetItem k) s of
        (Some e, s1) \<Rightarrow> (Inl e, s1)
      | (None, s1) \<Rightarrow> (Inr (map_option deserialize (map_of (table s1) k)), s1))"

text \<open>
  \<^verbatim>\<open>Table.scan(ExclusiveStartKey=...)\<close>. The store cuts the records, in scan order, into
  pages; \<open>page sizes i xs\<close> is page \<open>i\<close> of \<open>xs\<close>. The pagination token stands for the
  number of the next page, and the response carries \<^verbatim>\<open>LastEvaluatedKey\<close> on every page
  but the last.
\<close>

fun page :: "nat list \<Rightarrow> nat \<Rightarrow> 'a list \<Rightarrow> 'a list" where
  "page [] i xs = (if i = 0 then xs else [])"
| "page (n # ns) 0 xs = take n xs"
| "page (n # ns) (Suc i) xs = page ns i (drop n xs)"

record scan_response =
  Items :: "pydict list"
  LastEvaluatedKey :: "nat option"

definition table_scan :: "world \<Rightarrow> nat option \<Rightarrow> cloud \<Rightarrow> (exn + scan_response) \<times> cloud" where
  "table_scan w start s =
     (case aws w (Scan start) s of
        (Some e, s1) \<Rightarrow> (Inl e, s1)
      | (None, s1) \<Rightarrow>
          (let i = (case start of None \<Rightarrow> 0 | Some p \<Rightarrow> p)
           in (Inr \<lparr>Items = page (page_sizes w) i (map (deserialize \<circ> snd) (table s1)),
                    LastEvaluatedKey =
                      (if i < length (page_sizes w) then Some (Suc i) else None)\<rparr>,
               s1)))"

text \<open>
  \<^verbatim>\<open>Table.update_item\<close> with \<^verbatim>\<open>SET #s = :s, updated_at = :u\<close>, the condition
  \<^verbatim>\<open>attribute_exists(incident_id)\<close> and \<^verbatim>\<open>ReturnValues="ALL_NEW"\<close>.
\<close>

fun set_attrs :: "string \<Rightarrow> (pydict \<Rightarrow> pydict) \<Rightarrow> (string \<times> pydict) list \<Rightarrow> (string \<times> pydict) list" where
  "set_attrs k f [] = []"
| "set_attrs k f ((k', it) # ps) =
     (if k' = k then (k', f it) # ps else (k', it) # set_attrs k f ps)"

definition table_update_item ::
  "world \<Rightarrow> string \<Rightarrow> string \<Rightarrow> string \<Rightarrow> cloud \<Rightarrow> (exn + pydict) \<times> cloud" where
  "table_update_item w k st u s =
     (case aws w (UpdateItem k st u) s of
        (Some e, s1) \<Rightarrow> (Inl e, s1)
      | (None, s1) \<Rightarrow>
          (case map_of (table s1) k of
             None \<Rightarrow>
               (Inl (ClientError ''ConditionalCheckFailedException''
                      (''An error occurred (ConditionalCheckFailedException) when ''
                       @ ''calling the UpdateItem operation: The conditional request failed'')),
                s1)
           | Some it \<Rightarrow>
               (let upd = (\<lambda>i. i(''status'' \<mapsto> JStr st, ''updated_at'' \<mapsto> JStr u))
                in (Inr (deserialize (upd it)), s1\<lparr>table := set_attrs k upd (table s1)\<rparr>))))"

text \<open>\<^verbatim>\<open>_sns_client.publish(TopicArn=..., Message=json.dumps(payload), ...)\<close>.\<close>

definition sns_publish :: "world \<Rightarrow> pydict \<Rightarrow> cloud \<Rightarrow> (exn + unit) \<times> cloud" where
  "sns_publish w payload s =
     (case aws w (Publish payload) s of
        (Some e, s1) \<Rightarrow> (Inl e, s1)
      | (None, s1) \<Rightarrow> (Inr (), s1))"

section \<open>shared/utils.py\<close>

record response =
  statusCode :: nat
  headers :: "string \<Rightarrow> string option"
  body :: pydict
  isBase64Encoded :: bool

text \<open>
  The \<open>body\<close> of a response is the dict handed to \<^verbatim>\<open>json.dumps\<close>: the response's body
  text is its JSON serialisation, and the empty dict is the body \<^verbatim>\<open>{}\<close>.
  \<^verbatim>\<open>json.dumps\<close> raises \<^verbatim>\<open>TypeError\<close> on a dict that holds a \<^verbatim>\<open>Decimal\<close>.
\<close>

definition json_dumps :: "pydict \<Rightarrow> exn + pydict" where
  "json_dumps d =
     (if has_decimal (JDict d)
      then Inl (TypeError ''Object of type Decimal is not JSON serializable'')
      else Inr d)"

definition cors_headers :: "string \<Rightarrow> string option" where
  "cors_headers =
     [''Content-Type'' \<mapsto> ''application/json'',
      ''Access-Control-Allow-Origin'' \<mapsto> ''*'',
      ''Access-Control-Allow-Methods'' \<mapsto> ''OPTIONS,GET,POST,PATCH,PUT,DELETE'',
      ''Access-Control-Allow-Headers'' \<mapsto> ''Content-Type,Authorization'']"

definition build_response :: "nat \<Rightarrow> pydict option \<Rightarrow> exn + response" where
  "build_response status_code b =
     (case json_dumps (case b of None \<Rightarrow> Map.empty | Some d \<Rightarrow> d) of
        Inl e \<Rightarrow> Inl e
      | Inr text \<Rightarrow>
          Inr \<lparr>statusCode = status_code,
               headers = cors_headers,
               body = text,
               isBase64Encoded = False\<rparr>)"

text \<open>The API Gateway proxy event; an absent key is \<open>None\<close> (\<open>False\<close> for the flag).\<close>

record event =
  httpMethod :: "string option"
  pathParameters :: "(string \<Rightarrow> string option) option"
  req_body :: "string option"
  req_isBase64Encoded :: bool

text \<open>\<^verbatim>\<open>(event or {})\<close>\<close>

definition or_empty :: "event option \<Rightarrow> event" where
  "or_empty ev =
     (case ev of
        None \<Rightarrow> \<lparr>httpMethod = None, pathParameters = None, req_body = None,
                  req_isBase64Encoded = False\<rparr>
      | Some e \<Rightarrow> e)"

definition parse_json_body :: "world \<Rightarrow> event \<Rightarrow> exn + json" where
  "parse_json_body w ev =
     (case req_body ev of
        None \<Rightarrow> Inl (ValueError ''Request body is required'')
      | Some raw \<Rightarrow>
          (case (if req_isBase64Encoded ev then b64decode_utf8 w raw else Inr raw) of
             Inl m \<Rightarrow> Inl (ValueError m)
           | Inr raw_body \<Rightarrow>
               (case json_loads w raw_body of
                  None \<Rightarrow> Inl (ValueError ''Request body must be valid JSON'')
                | Some v \<Rightarrow> Inr v)))"

definition is_options_request :: "event option \<Rightarrow> bool" where
  "is_options_request ev = (httpMethod (or_empty ev) = Some ''OPTIONS'')"

section \<open>shared/dynamodb.py and shared/sns.py\<close>

definition get_env_var :: "world \<Rightarrow> string \<Rightarrow> exn + string" where
  "get_env_var w name =
     (case getenv w name of
        None \<Rightarrow> Inl (RuntimeError (''Missing required environment variable: '' @ name))
      | Some v \<Rightarrow>
          if v = [] then Inl (RuntimeError (''Missing required environment variable: '' @ name))
          else Inr v)"

definition get_incidents_table :: "world \<Rightarrow> exn + string" where
  "get_incidents_table w = get_env_var w ''INCIDENTS_TABLE_NAME''"

definition put_incident_item :: "world \<Rightarrow> pydict \<Rightarrow> cloud \<Rightarrow> (exn + unit) \<times> cloud" where
  "put_incident_item w item s =
     (case get_incidents_table w of
        Inl e \<Rightarrow> (Inl e, s)
      | Inr _ \<Rightarrow> table_put_item w item s)"

definition get_incident_item :: "world \<Rightarrow> string \<Rightarrow> cloud \<Rightarrow> (exn + pydict option) \<times> cloud" where
  "get_incident_item w incident_id s =
     (case get_incidents_table w of
        Inl e \<Rightarrow> (Inl e, s)
      | Inr _ \<Rightarrow> table_get_item w incident_id s)"

text \<open>The \<^verbatim>\<open>while True\<close> loop of \<^verbatim>\<open>scan_incidents\<close>.\<close>

function scan_loop ::
  "world \<Rightarrow> nat option \<Rightarrow> pydict list \<Rightarrow> cloud \<Rightarrow> (exn + pydict list) \<times> cloud" where
  "scan_loop w start items s =
     (case table_scan w start s of
        (Inl e, s1) \<Rightarrow> (Inl e, s1)
      | (Inr r, s1) \<Rightarrow>
          (case LastEvaluatedKey r of
             None \<Rightarrow> (Inr (items @ Items r), s1)
           | Some last_key \<Rightarrow> scan_loop w (Some last_key) (items @ Items r) s1))"
  by pat_completeness auto
termination
  apply (relation "measure (\<lambda>(w, start, items, s).
          Suc (length (page_sizes w)) - (case start of None \<Rightarrow> 0 | Some p \<Rightarrow> p))")
   apply simp
  apply (auto simp: table_scan_def aws_def Let_def split: option.splits if_splits prod.splits)
  done

declare scan_loop.simps [simp del]

definition scan_incidents :: "world \<Rightarrow> cloud \<Rightarrow> (exn + pydict list) \<times> cloud" where
  "scan_incidents w s =
     (case get_incidents_table w of
        Inl e \<Rightarrow> (Inl e, s)
      | Inr _ \<Rightarrow> scan_loop w None [] s)"

definition update_incident_status ::
  "world \<Rightarrow> string \<Rightarrow> string \<Rightarrow> string \<Rightarrow> cloud \<Rightarrow> (exn + pydict) \<times> cloud" where
  "update_incident_status w incident_id status updated_at s =
     (case get_incidents_table w of
        Inl e \<Rightarrow> (Inl e, s)
      | Inr _ \<Rightarrow> table_update_item w incident_id status updated_at s)"

definition publish_incident_created_message ::
  "world \<Rightarrow> pydict \<Rightarrow> cloud \<Rightarrow> (exn + unit) \<times> cloud" where
  "publish_incident_created_message w payload s =
     (case get_env_var w ''INCIDENTS_TOPIC_ARN'' of
        Inl e \<Rightarrow> (Inl e, s)
      | Inr _ \<Rightarrow>
          (case json_dumps payload of
             Inl e \<Rightarrow> (Inl e, s)
           | Inr message \<Rightarrow> sns_publish w message s))"

section \<open>Python operations on decoded JSON\<close>

text \<open>\<^verbatim>\<open>str.strip()\<close>: the characters for which \<^verbatim>\<open>str.isspace\<close> holds, below 256.\<close>

definition isspace :: "char \<Rightarrow> bool" where
  "isspace c = (c \<in> set [CHR 0x09, CHR 0x0A, CHR 0x0B, CHR 0x0C, CHR 0x0D, CHR 0x1C, CHR 0x1D,
                           CHR 0x1E, CHR 0x1F, CHR 0x20, CHR 0x85, CHR 0xA0])"

definition strip :: "string \<Rightarrow> string" where
  "strip s = rev (dropWhile isspace (rev (dropWhile isspace s)))"

fun substring :: "string \<Rightarrow> string \<Rightarrow> bool" where
  "substring f [] = (f = [])"
| "substring f (c # cs) = (take (length f) (c # cs) = f \<or> substring f cs)"

text \<open>\<^verbatim>\<open>f in payload\<close> for a string \<open>f\<close>: key of a dict, element of a list, substring of a
  string, and \<^verbatim>\<open>TypeError\<close> for a value that is not iterable.\<close>

fun py_in :: "string \<Rightarrow> json \<Rightarrow> exn + bool" where
  "py_in f (JDict d) = Inr (d f \<noteq> None)"
| "py_in f (JList xs) = Inr (JStr f \<in> set xs)"
| "py_in f (JStr s) = Inr (substring f s)"
| "py_in f v = Inl (TypeError ''argument is not iterable'')"

text \<open>\<^verbatim>\<open>payload.get(k)\<close>: only a dict has \<^verbatim>\<open>get\<close>.\<close>

fun py_get :: "json \<Rightarrow> string \<Rightarrow> exn + json" where
  "py_get (JDict d) k = Inr (case d k of None \<Rightarrow> JNull | Some v \<Rightarrow> v)"
| "py_get v k = Inl (AttributeError ''object has no attribute get'')"

text \<open>\<^verbatim>\<open>v in allowed\<close> for a set of strings: the value is hashed first, and a list or a
  dict is unhashable.\<close>

fun py_in_strset :: "json \<Rightarrow> string list \<Rightarrow> exn + bool" where
  "py_in_strset (JStr s) allowed = Inr (s \<in> set allowed)"
| "py_in_strset (JList xs) allowed = Inl (TypeError ''unhashable type: list'')"
| "py_in_strset (JDict d) allowed = Inl (TypeError ''unhashable type: dict'')"
| "py_in_strset v allowed = Inr False"

text \<open>\<^verbatim>\<open>', '.join(xs)\<close>\<close>

fun join :: "string list \<Rightarrow> string" where
  "join [] = []"
| "join [x] = x"
| "join (x # y # ys) = x @ '', '' @ join (y # ys)"

text \<open>\<^verbatim>\<open>not isinstance(v, str) or not v.strip()\<close>\<close>

fun not_nonempty_str :: "json \<Rightarrow> bool" where
  "not_nonempty_str (JStr t) = (strip t = [])"
| "not_nonempty_str v = True"

fun isinstance_list :: "json \<Rightarrow> bool" where
  "isinstance_list (JList xs) = True"
| "isinstance_list v = False"

section \<open>create\_incident/handler.py\<close>

text \<open>\<^verbatim>\<open>[f for f in required_fields if f not in payload]\<close>\<close>

fun missing_fields :: "json \<Rightarrow> string list \<Rightarrow> exn + string list" where
  "missing_fields payload [] = Inr []"
| "missing_fields payload (f # fs) =
     (case py_in f payload of
        Inl e \<Rightarrow> Inl e
      | Inr b \<Rightarrow>
          (case missing_fields payload fs of
             Inl e \<Rightarrow> Inl e
           | Inr ms \<Rightarrow> Inr (if b then ms else f # ms)))"

definition validation_error :: "string \<Rightarrow> pydict" where
  "validation_error m = [''error'' \<mapsto> JStr ''ValidationError'', ''message'' \<mapsto> JStr m]"

text \<open>The result is the pair \<^verbatim>\<open>(is_valid, error_body)\<close>, or the exception raised.\<close>

definition create_validate_payload :: "json \<Rightarrow> exn + bool \<times> pydict option" where
  "create_validate_payload payload =
     (case missing_fields payload [''title'', ''description'', ''severity'', ''reported_by''] of
        Inl e \<Rightarrow> Inl e
      | Inr missing \<Rightarrow>
          if missing \<noteq> []
          then Inr (False, Some (validation_error (''Missing fields: '' @ join missing)))
          else
            (case py_get payload ''title'' of
               Inl e \<Rightarrow> Inl e
             | Inr title \<Rightarrow>
            if not_nonempty_str title
            then Inr (False, Some (validation_error ''title must be a non-empty string''))
            else
            (case py_get payload ''description'' of
               Inl e \<Rightarrow> Inl e
             | Inr description \<Rightarrow>
            if not_nonempty_str description
            then Inr (False, Some (validation_error ''description must be a non-empty string''))
            else
            (case py_get payload ''reported_by'' of
               Inl e \<Rightarrow> Inl e
             | Inr reported_by \<Rightarrow>
            if not_nonempty_str reported_by
            then Inr (False, Some (validation_error ''reported_by must be a non-empty string''))
            else
            (case py_get payload ''severity'' of
               Inl e \<Rightarrow> Inl e
             | Inr severity \<Rightarrow>
            (case py_in_strset severity [''low'', ''medium'', ''high'', ''critical''] of
               Inl e \<Rightarrow> Inl e
             | Inr ok \<Rightarrow>
            if \<not> ok
            then Inr (False, Some (validation_error
                        ''severity must be one of: critical, high, low, medium''))
            else
            (case py_in ''tags'' payload of
               Inl e \<Rightarrow> Inl e
             | Inr has_tags \<Rightarrow>
            (case py_get payload ''tags'' of
               Inl e \<Rightarrow> Inl e
             | Inr tags \<Rightarrow>
            if has_tags \<and> \<not> isinstance_list tags
            then Inr (False, Some (validation_error ''tags must be a list of strings''))
            else Inr (True, None)))))))))"

text \<open>\<^verbatim>\<open>payload[k].strip()\<close> and \<^verbatim>\<open>payload[k]\<close> on the validated payload.\<close>

definition stripped :: "pydict \<Rightarrow> string \<Rightarrow> json" where
  "stripped d k = (case d k of Some (JStr t) \<Rightarrow> JStr (strip t) | _ \<Rightarrow> JNull)"

definition subscript :: "pydict \<Rightarrow> string \<Rightarrow> json" where
  "subscript d k = (case d k of Some v \<Rightarrow> v | None \<Rightarrow> JNull)"

text \<open>The \<^verbatim>\<open>item\<close> dict the handler builds, with \<^verbatim>\<open>tags\<close> when the payload has them.\<close>

definition new_item :: "string \<Rightarrow> string \<Rightarrow> pydict \<Rightarrow> pydict" where
  "new_item incident_id created_at d =
     (let item = [''incident_id'' \<mapsto> JStr incident_id,
                  ''title'' \<mapsto> stripped d ''title'',
                  ''description'' \<mapsto> stripped d ''description'',
                  ''severity'' \<mapsto> subscript d ''severity'',
                  ''reported_by'' \<mapsto> stripped d ''reported_by'',
                  ''created_at'' \<mapsto> JStr created_at,
                  ''status'' \<mapsto> JStr ''open'']
      in case d ''tags'' of None \<Rightarrow> item | Some tags \<Rightarrow> item(''tags'' \<mapsto> tags))"

definition notification_payload :: "string \<Rightarrow> string \<Rightarrow> pydict \<Rightarrow> pydict" where
  "notification_payload incident_id created_at item =
     [''incident_id'' \<mapsto> JStr incident_id,
      ''severity'' \<mapsto> subscript item ''severity'',
      ''title'' \<mapsto> subscript item ''title'',
      ''created_at'' \<mapsto> JStr created_at,
      ''status'' \<mapsto> subscript item ''status'']"

definition created_body :: "string \<Rightarrow> string \<Rightarrow> pydict" where
  "created_body incident_id created_at =
     [''incident_id'' \<mapsto> JStr incident_id,
      ''status'' \<mapsto> JStr ''created'',
      ''created_at'' \<mapsto> JStr created_at]"

definition create_lambda_handler :: "world \<Rightarrow> event option \<Rightarrow> cloud \<Rightarrow> (exn + response) \<times> cloud" where
  "create_lambda_handler w ev s =
     (if is_options_request ev then (build_response 204 None, s)
      else if httpMethod (or_empty ev) \<noteq> Some ''POST''
      then (build_response 405
                  (Some [''error'' \<mapsto> JStr ''MethodNotAllowed'',
                         ''message'' \<mapsto> JStr ''Only POST is supported for this resource'']), s)
      else
        (case parse_json_body w (or_empty ev) of
           Inl (ValueError m) \<Rightarrow>
             (build_response 400
                    (Some [''error'' \<mapsto> JStr ''BadRequest'', ''message'' \<mapsto> JStr m]), s)
         | Inl e \<Rightarrow> (Inl e, s)
         | Inr payload \<Rightarrow>
        (case create_validate_payload payload of
           Inl e \<Rightarrow> (Inl e, s)
         | Inr (is_valid, error_body) \<Rightarrow>
        if \<not> is_valid then (build_response 400 error_body, s)
        else
        (case payload of
           JDict d \<Rightarrow>
             (let incident_id = str_uuid (uuid4 w);
                  created_at = utcnow_isoformat w;
                  item = new_item incident_id created_at d
              in case put_incident_item w item s of
                   (Inl (ClientError c m), s1) \<Rightarrow>
                     (build_response 500
                            (Some [''error'' \<mapsto> JStr ''InternalServerError'',
                                   ''message'' \<mapsto> JStr ''Failed to create incident (DynamoDB)'',
                                   ''detail'' \<mapsto> JStr m]), s1)
                 | (Inl e, s1) \<Rightarrow> (Inl e, s1)
                 | (Inr u, s1) \<Rightarrow>
                     (case publish_incident_created_message w
                             (notification_payload incident_id created_at item) s1 of
                        (Inl exc, s2) \<Rightarrow>
                          (build_response 202
                                 (Some ((created_body incident_id created_at)
                                     (''warning'' \<mapsto> JStr ''Incident stored but notification failed'',
                                      ''sns_error'' \<mapsto> JStr (str_exn exc)))), s2)
                      | (Inr u', s2) \<Rightarrow>
                          (build_response 201
                                 (Some (created_body incident_id created_at)), s2)))
         | _ \<Rightarrow> (Inl (TypeError ''payload is not a dict''), s)))))"

section \<open>get\_incident/handler.py\<close>

text \<open>\<^verbatim>\<open>((event or {}).get("pathParameters") or {}).get("id")\<close>\<close>

definition path_id :: "event option \<Rightarrow> string option" where
  "path_id ev = (case pathParameters (or_empty ev) of None \<Rightarrow> None | Some ps \<Rightarrow> ps ''id'')"

definition not_found_body :: "string \<Rightarrow> pydict" where
  "not_found_body incident_id =
     [''error'' \<mapsto> JStr ''NotFound'',
      ''message'' \<mapsto> JStr (''Incident '' @ [CHR 0x27] @ incident_id @ [CHR 0x27] @ '' not found'')]"

definition path_id_required :: pydict where
  "path_id_required =
     [''error'' \<mapsto> JStr ''BadRequest'',
      ''message'' \<mapsto> JStr (''Path parameter '' @ [CHR 0x27] @ ''id'' @ [CHR 0x27] @ '' is required'')]"

definition get_lambda_handler :: "world \<Rightarrow> event option \<Rightarrow> cloud \<Rightarrow> (exn + response) \<times> cloud" where
  "get_lambda_handler w ev s =
     (if is_options_request ev then (build_response 204 None, s)
      else if httpMethod (or_empty ev) \<noteq> Some ''GET''
      then (build_response 405
                  (Some [''error'' \<mapsto> JStr ''MethodNotAllowed'',
                         ''message'' \<mapsto> JStr ''Only GET is supported for this resource'']), s)
      else
        (case path_id ev of
           None \<Rightarrow> (build_response 400 (Some path_id_required), s)
         | Some incident_id \<Rightarrow>
        if incident_id = [] then (build_response 400 (Some path_id_required), s)
        else
        (case get_incident_item w incident_id s of
           (Inl (ClientError c m), s1) \<Rightarrow>
             (build_response 500
                    (Some [''error'' \<mapsto> JStr ''InternalServerError'',
                           ''message'' \<mapsto> JStr ''Failed to fetch incident'',
                           ''detail'' \<mapsto> JStr m]), s1)
         | (Inl e, s1) \<Rightarrow> (Inl e, s1)
         | (Inr None, s1) \<Rightarrow> (build_response 404 (Some (not_found_body incident_id)), s1)
         | (Inr (Some item), s1) \<Rightarrow>
             if item = Map.empty
             then (build_response 404 (Some (not_found_body incident_id)), s1)
             else (build_response 200 (Some item), s1))))"

section \<open>list\_incidents/handler.py\<close>

definition list_lambda_handler :: "world \<Rightarrow> event option \<Rightarrow> cloud \<Rightarrow> (exn + response) \<times> cloud" where
  "list_lambda_handler w ev s =
     (if is_options_request ev then (build_response 204 None, s)
      else if httpMethod (or_empty ev) \<noteq> Some ''GET''
      then (build_response 405
                  (Some [''error'' \<mapsto> JStr ''MethodNotAllowed'',
                         ''message'' \<mapsto> JStr ''Only GET is supported for this resource'']), s)
      else
        (case scan_incidents w s of
           (Inl (ClientError c m), s1) \<Rightarrow>
             (build_response 500
                    (Some [''error'' \<mapsto> JStr ''InternalServerError'',
                           ''message'' \<mapsto> JStr ''Failed to list incidents'',
                           ''detail'' \<mapsto> JStr m]), s1)
         | (Inl e, s1) \<Rightarrow> (Inl e, s1)
         | (Inr items, s1) \<Rightarrow>
             (build_response 200 (Some [''items'' \<mapsto> JList (map JDict items)]), s1)))"

section \<open>update\_incident/handler.py\<close>

definition update_validate_payload :: "json \<Rightarrow> exn + bool \<times> pydict option" where
  "update_validate_payload payload =
     (case py_in ''status'' payload of
        Inl e \<Rightarrow> Inl e
      | Inr has_status \<Rightarrow>
          if \<not> has_status then Inr (False, Some (validation_error ''status is required''))
          else
            (case py_get payload ''status'' of
               Inl e \<Rightarrow> Inl e
             | Inr status \<Rightarrow>
            (case py_in_strset status [''open'', ''in_progress'', ''resolved'', ''closed''] of
               Inl e \<Rightarrow> Inl e
             | Inr ok \<Rightarrow>
            if \<not> ok
            then Inr (False, Some (validation_error
                        ''status must be one of: closed, in_progress, open, resolved''))
            else Inr (True, None))))"

definition update_lambda_handler :: "world \<Rightarrow> event option \<Rightarrow> cloud \<Rightarrow> (exn + response) \<times> cloud" where
  "update_lambda_handler w ev s =
     (if is_options_request ev then (build_response 204 None, s)
      else if httpMethod (or_empty ev) \<notin> {Some ''PATCH'', Some ''PUT''}
      then (build_response 405
                  (Some [''error'' \<mapsto> JStr ''MethodNotAllowed'',
                         ''message'' \<mapsto> JStr ''Only PATCH or PUT is supported for this resource'']), s)
      else
        (case path_id ev of
           None \<Rightarrow> (build_response 400 (Some path_id_required), s)
         | Some incident_id \<Rightarrow>
        if incident_id = [] then (build_response 400 (Some path_id_required), s)
        else
        (case parse_json_body w (or_empty ev) of
           Inl (ValueError m) \<Rightarrow>
             (build_response 400
                    (Some [''error'' \<mapsto> JStr ''BadRequest'', ''message'' \<mapsto> JStr m]), s)
         | Inl e \<Rightarrow> (Inl e, s)
         | Inr payload \<Rightarrow>
        (case update_validate_payload payload of
           Inl e \<Rightarrow> (Inl e, s)
         | Inr (is_valid, error_body) \<Rightarrow>
        if \<not> is_valid then (build_response 400 error_body, s)
        else
        (case payload of
           JDict d \<Rightarrow>
             (case d ''status'' of
                Some (JStr new_status) \<Rightarrow>
                  (case update_incident_status w incident_id new_status (utcnow_isoformat w) s of
                     (Inl (ClientError c m), s1) \<Rightarrow>
                       if c = ''ConditionalCheckFailedException''
                       then (build_response 404 (Some (not_found_body incident_id)), s1)
                       else (build_response 500
                                   (Some [''error'' \<mapsto> JStr ''InternalServerError'',
                                          ''message'' \<mapsto> JStr ''Failed to update incident status'',
                                          ''detail'' \<mapsto> JStr m]), s1)
                   | (Inl e, s1) \<Rightarrow> (Inl e, s1)
                   | (Inr updated_item, s1) \<Rightarrow> (build_response 200 (Some updated_item), s1))
              | _ \<Rightarrow> (Inl (TypeError ''status is not a string''), s))
         | _ \<Rightarrow> (Inl (TypeError ''payload is not a dict''), s))))))"

section \<open>health\_check/handler.py\<close>


section \<open>The validation rules and the answers in words\<close>

text \<open>The payload rules of the create operation as the specification words them.\<close>

definition valid_create_payload :: "pydict \<Rightarrow> bool" where
  "valid_create_payload d =
     ((\<exists>t. d ''title'' = Some (JStr t) \<and> strip t \<noteq> []) \<and>
      (\<exists>t. d ''description'' = Some (JStr t) \<and> strip t \<noteq> []) \<and>
      (\<exists>t. d ''reported_by'' = Some (JStr t) \<and> strip t \<noteq> []) \<and>
      (\<exists>v. d ''severity'' = Some (JStr v) \<and> v \<in> {''low'', ''medium'', ''high'', ''critical''}) \<and>
      (d ''tags'' = None \<or> (\<exists>xs. d ''tags'' = Some (JList xs))))"

text \<open>The response with the fixed headers, a status and a body, written out.\<close>

abbreviation answer :: "nat \<Rightarrow> pydict \<Rightarrow> response" where
  "answer c b \<equiv>
     \<lparr>statusCode = c, headers = cors_headers, body = b, isBase64Encoded = False\<rparr>"

text \<open>
  The shapes an answer can have: \<open>error_body kind r\<close> says that the body of \<open>r\<close> names
  the error kind and carries a message; \<open>answer_shape s r s'\<close> lists the statuses, with
  the state unchanged where the answer is a preflight answer or a rejection.
\<close>

definition error_body :: "string \<Rightarrow> response \<Rightarrow> bool" where
  "error_body kind r =
     (body r ''error'' = Some (JStr kind) \<and> (\<exists>m. body r ''message'' = Some (JStr m)))"

definition answer_shape :: "cloud \<Rightarrow> response \<Rightarrow> cloud \<Rightarrow> bool" where
  "answer_shape s r s' =
     (headers r = cors_headers \<and> isBase64Encoded r = False \<and>
      (statusCode r = 204 \<and> body r = Map.empty \<and> s' = s
       \<or> statusCode r = 405 \<and> error_body ''MethodNotAllowed'' r \<and> s' = s
       \<or> statusCode r = 400 \<and> error_body ''BadRequest'' r \<and> s' = s
       \<or> statusCode r = 400 \<and> error_body ''ValidationError'' r \<and> s' = s
       \<or> statusCode r = 404 \<and> error_body ''NotFound'' r
       \<or> statusCode r = 500 \<and> error_body ''InternalServerError'' r
           \<and> (\<exists>t. body r ''detail'' = Some (JStr t))
       \<or> statusCode r = 200 \<or> statusCode r = 201 \<or> statusCode r = 202))"

section \<open>Example inputs\<close>

text \<open>Request bodies and the payloads they decode to.\<close>

definition payload_ex :: pydict where
  "payload_ex = [''title'' \<mapsto> JStr '' Disk full '', ''description'' \<mapsto> JStr ''db-1 is at 98%'',
     ''severity'' \<mapsto> JStr ''high'', ''reported_by'' \<mapsto> JStr ''ops'',
     ''tags'' \<mapsto> JList [JStr ''db'']]"

definition body_ex :: string where
  \<open>body_ex = ''{"title": " Disk full ", "description": "db-1 is at 98%", "severity": "high", "reported_by": "ops", "tags": ["db"]}''\<close>

definition payload_extra :: pydict where
  "payload_extra = payload_ex(''incident_id'' \<mapsto> JStr ''mine'', ''status'' \<mapsto> JStr ''closed'',
     ''created_at'' \<mapsto> JStr ''1999'', ''updated_at'' \<mapsto> JStr ''1999'', ''owner'' \<mapsto> JInt 7)"

definition body_extra :: string where
  \<open>body_extra = ''{"title": " Disk full ", "description": "db-1 is at 98%", "severity": "high", "reported_by": "ops", "tags": ["db"], "incident_id": "mine", "status": "closed", "created_at": "1999", "updated_at": "1999", "owner": 7}''\<close>

definition payload_num :: pydict where
  "payload_num = payload_ex(''tags'' \<mapsto> JList [JInt 1, JInt 2])"

definition body_num :: string where
  \<open>body_num = ''{"title": " Disk full ", "description": "db-1 is at 98%", "severity": "high", "reported_by": "ops", "tags": [1, 2]}''\<close>

definition body_update :: string where
  \<open>body_update = ''{"status": "resolved"}''\<close>

definition body_bogus :: string where
  \<open>body_bogus = ''{"status": "bogus"}''\<close>

definition loads_ex :: "string \<Rightarrow> json option" where
  "loads_ex = [body_ex \<mapsto> JDict payload_ex, body_extra \<mapsto> JDict payload_extra,
     body_update \<mapsto> JDict [''status'' \<mapsto> JStr ''resolved''],
     body_bogus \<mapsto> JDict [''status'' \<mapsto> JStr ''bogus''],
     body_num \<mapsto> JDict payload_num]"

text \<open>
  Worlds: a configured one where every call goes through and a scan gives one record,
  then the rest; one where a scan gives an empty page, then two records, then a last
  page; one where the publish is refused; one where every AWS call is throttled; one
  with no environment variables.
\<close>

definition env_ok :: "string \<Rightarrow> string option" where
  "env_ok = [''INCIDENTS_TABLE_NAME'' \<mapsto> ''incidents'',
             ''INCIDENTS_TOPIC_ARN'' \<mapsto> ''arn:aws:sns:eu-west-1:1:incidents'']"

definition world_ok :: world where
  "world_ok = \<lparr>getenv = env_ok, uuid4 = 0, utcnow_isoformat = ''2024-05-01T12:00:00+00:00'',
     json_loads = loads_ex, b64decode_utf8 = Inr, aws_fault = (\<lambda>n. None),
     page_sizes = [1]\<rparr>"

definition world_wide :: world where
  "world_wide = world_ok\<lparr>page_sizes := [0, 2]\<rparr>"

definition world_sns_down :: world where
  "world_sns_down = world_ok\<lparr>aws_fault :=
     (\<lambda>n. if n = 1 then Some (ClientError ''AuthorizationError'' ''not authorized to publish'')
          else None)\<rparr>"

definition world_throttled :: world where
  "world_throttled = world_ok\<lparr>aws_fault :=
     (\<lambda>n. Some (ClientError ''ProvisionedThroughputExceededException'' ''rate exceeded''))\<rparr>"

definition world_noenv :: world where
  "world_noenv = world_ok\<lparr>getenv := Map.empty\<rparr>"

text \<open>The id the first world generates, and the events.\<close>

definition id_ex :: string where
  "id_ex = str_uuid 0"

definition event_create :: event where
  "event_create = \<lparr>httpMethod = Some ''POST'', pathParameters = None, req_body = Some body_ex,
     req_isBase64Encoded = False\<rparr>"

definition event_create_extra :: event where
  "event_create_extra = event_create\<lparr>req_body := Some body_extra\<rparr>"

definition event_create_num :: event where
  "event_create_num = event_create\<lparr>req_body := Some body_num\<rparr>"

definition event_get :: event where
  "event_get = \<lparr>httpMethod = Some ''GET'', pathParameters = Some [''id'' \<mapsto> id_ex],
     req_body = None, req_isBase64Encoded = False\<rparr>"

definition event_list :: event where
  "event_list = \<lparr>httpMethod = Some ''GET'', pathParameters = None, req_body = None,
     req_isBase64Encoded = False\<rparr>"

definition event_update :: event where
  "event_update = \<lparr>httpMethod = Some ''PATCH'', pathParameters = Some [''id'' \<mapsto> id_ex],
     req_body = Some body_update, req_isBase64Encoded = False\<rparr>"

definition event_update_bogus :: event where
  "event_update_bogus = event_update\<lparr>req_body := Some body_bogus\<rparr>"

definition event_options :: event where
  "event_options = \<lparr>httpMethod = Some ''OPTIONS'', pathParameters = Some [''id'' \<mapsto> id_ex],
     req_body = Some ''not json'', req_isBase64Encoded = True\<rparr>"

definition event_delete :: event where
  "event_delete = \<lparr>httpMethod = Some ''DELETE'', pathParameters = None, req_body = None,
     req_isBase64Encoded = False\<rparr>"

text \<open>The record the create request leads to, the bodies that go with it, and tables.\<close>

definition item_ex :: pydict where
  "item_ex = [''incident_id'' \<mapsto> JStr id_ex, ''title'' \<mapsto> JStr ''Disk full'',
     ''description'' \<mapsto> JStr ''db-1 is at 98%'', ''severity'' \<mapsto> JStr ''high'',
     ''reported_by'' \<mapsto> JStr ''ops'', ''created_at'' \<mapsto> JStr ''2024-05-01T12:00:00+00:00'',
     ''status'' \<mapsto> JStr ''open'', ''tags'' \<mapsto> JList [JStr ''db'']]"

definition notification_ex :: pydict where
  "notification_ex = [''incident_id'' \<mapsto> JStr id_ex, ''severity'' \<mapsto> JStr ''high'',
     ''title'' \<mapsto> JStr ''Disk full'', ''created_at'' \<mapsto> JStr ''2024-05-01T12:00:00+00:00'',
     ''status'' \<mapsto> JStr ''open'']"

definition created_ex :: pydict where
  "created_ex = [''incident_id'' \<mapsto> JStr id_ex, ''status'' \<mapsto> JStr ''created'',
     ''created_at'' \<mapsto> JStr ''2024-05-01T12:00:00+00:00'']"

definition item_other :: pydict where
  "item_other = [''incident_id'' \<mapsto> JStr ''7c0e'', ''title'' \<mapsto> JStr ''Cert expiry'',
     ''description'' \<mapsto> JStr ''renew'', ''severity'' \<mapsto> JStr ''low'',
     ''reported_by'' \<mapsto> JStr ''sec'', ''created_at'' \<mapsto> JStr ''2024-04-30T08:00:00+00:00'',
     ''status'' \<mapsto> JStr ''open'']"

definition cloud_empty :: cloud where
  "cloud_empty = \<lparr>table = [], calls = []\<rparr>"

definition cloud_taken :: cloud where
  "cloud_taken = \<lparr>table = [(id_ex, item_ex(''status'' \<mapsto> JStr ''resolved''))], calls = []\<rparr>"

definition cloud_two :: cloud where
  "cloud_two = \<lparr>table = [(''7c0e'', item_other), (id_ex, item_ex)], calls = []\<rparr>"

definition item_num :: pydict where
  "item_num = item_ex(''tags'' \<mapsto> JList [JInt 1, JInt 2])"

definition cloud_num :: cloud where
  "cloud_num = \<lparr>table = [(id_ex, item_num)],
     calls = [PutItem item_num, Publish notification_ex]\<rparr>"

definition cloud_two_resolved :: cloud where
  "cloud_two_resolved =
     \<lparr>table = [(''7c0e'', item_other),
               (id_ex, item_ex(''status'' \<mapsto> JStr ''resolved'',
                               ''updated_at'' \<mapsto> JStr ''2024-05-01T12:00:00+00:00''))],
      calls = [UpdateItem id_ex ''resolved'' ''2024-05-01T12:00:00+00:00'']\<rparr>"

section \<open>Facts about the values\<close>

lemmas body_defs = body_ex_def body_extra_def body_update_def body_bogus_def body_num_def

inductive_simps has_decimal_simps [simp]:
  "has_decimal JNull" "has_decimal (JBool b)" "has_decimal (JInt n)" "has_decimal (JFloat r)"
  "has_decimal (JDecimal r)" "has_decimal (JStr t)" "has_decimal (JList xs)"

inductive_simps has_decimal_dict: "has_decimal (JDict d)"

inductive_simps has_number_simps [simp]:
  "has_number JNull" "has_number (JBool b)" "has_number (JInt n)" "has_number (JFloat r)"
  "has_number (JDecimal r)" "has_number (JStr t)" "has_number (JList xs)"

inductive_simps has_number_dict: "has_number (JDict d)"

lemma no_decimal_empty [simp]: "\<not> has_decimal (JDict Map.empty)"
  by (simp add: has_decimal_dict)

lemma no_decimal_upd [simp]:
  "\<not> has_decimal v \<Longrightarrow> \<not> has_decimal (JDict m) \<Longrightarrow> \<not> has_decimal (JDict (m(k \<mapsto> v)))"
  by (auto simp: has_decimal_dict split: if_splits)

lemma no_number_empty [simp]: "\<not> has_number (JDict Map.empty)"
  by (simp add: has_number_dict)

lemma no_number_upd [simp]:
  "\<not> has_number v \<Longrightarrow> \<not> has_number (JDict m) \<Longrightarrow> \<not> has_number (JDict (m(k \<mapsto> v)))"
  by (auto simp: has_number_dict split: if_splits)

lemma has_decimal_from_dynamo: "has_decimal (from_dynamo v) \<longleftrightarrow> has_number v"
proof (induction v)
  case (JList xs)
  then show ?case by auto
next
  case (JDict d)
  show ?case
  proof
    assume "has_decimal (from_dynamo (JDict d))"
    then obtain k v' where "(map_option from_dynamo \<circ> d) k = Some v'" "has_decimal v'"
      by (auto simp: has_decimal_dict)
    then obtain v where v: "d k = Some v" "has_decimal (from_dynamo v)" by auto
    then have "Some v \<in> range d" by (metis rangeI)
    with JDict v have "has_number v" by auto
    with v show "has_number (JDict d)" by (auto simp: has_number_dict)
  next
    assume "has_number (JDict d)"
    then obtain k v where v: "d k = Some v" "has_number v" by (auto simp: has_number_dict)
    then have "Some v \<in> range d" by (metis rangeI)
    with JDict v have "has_decimal (from_dynamo v)" by auto
    with v show "has_decimal (from_dynamo (JDict d))"
      by (auto simp: has_decimal_dict intro!: exI [of _ k])
  qed
qed simp_all

lemma from_dynamo_plain: "\<not> has_number v \<Longrightarrow> from_dynamo v = v"
proof (induction v)
  case (JList xs)
  then show ?case by (auto simp: map_idI)
next
  case (JDict d)
  have "(map_option from_dynamo \<circ> d) k = d k" for k
  proof (cases "d k")
    case (Some v)
    then have "Some v \<in> range d" by (metis rangeI)
    moreover from Some JDict.prems have "\<not> has_number v" by (auto simp: has_number_dict)
    ultimately have "from_dynamo v = v" using JDict.IH by auto
    with Some show ?thesis by simp
  qed simp
  then show ?case by (simp add: fun_eq_iff)
qed simp_all

lemma has_decimal_deserialize: "has_decimal (JDict (deserialize d)) \<longleftrightarrow> has_number (JDict d)"
  using has_decimal_from_dynamo [of "JDict d"] by (simp add: deserialize_def)

lemma deserialize_plain: "\<not> has_number (JDict d) \<Longrightarrow> deserialize d = d"
  using from_dynamo_plain [of "JDict d"] by (simp add: deserialize_def)

lemma build_response_None [simp]: "build_response c None = Inr (answer c Map.empty)"
  by (simp add: build_response_def json_dumps_def)

lemma build_response_plain [simp]:
  "\<not> has_decimal (JDict b) \<Longrightarrow> build_response c (Some b) = Inr (answer c b)"
  by (simp add: build_response_def json_dumps_def)

lemma build_response_decimal:
  "has_decimal (JDict b) \<Longrightarrow>
     build_response c (Some b) = Inl (TypeError ''Object of type Decimal is not JSON serializable'')"
  by (simp add: build_response_def json_dumps_def)

lemma plain_bodies [simp]:
  "\<not> has_decimal (JDict (validation_error m))"
  "\<not> has_decimal (JDict (not_found_body k))"
  "\<not> has_decimal (JDict path_id_required)"
  "\<not> has_decimal (JDict (created_body i c))"
  by (simp_all add: validation_error_def not_found_body_def path_id_required_def created_body_def)

lemma has_decimal_number: "has_decimal v \<Longrightarrow> has_number v"
  by (induction rule: has_decimal.induct) (auto intro: has_number.intros)

lemma items_plain:
  assumes "\<forall>it\<in>set recs. \<not> has_number (JDict it)"
  shows "map deserialize recs = recs"
    and "\<not> has_decimal (JDict [''items'' \<mapsto> JList (map JDict recs)])"
proof -
  show "map deserialize recs = recs"
    using assms by (simp add: map_idI deserialize_plain)
  have "\<not> has_decimal (JList (map JDict recs))"
    using assms has_decimal_number by auto
  then show "\<not> has_decimal (JDict [''items'' \<mapsto> JList (map JDict recs)])"
    by simp
qed

lemma items_decimal:
  assumes "it \<in> set recs" and "has_number (JDict it)"
  shows "has_decimal (JDict [''items'' \<mapsto> JList (map JDict (map deserialize recs))])"
proof -
  have "has_decimal (JDict (deserialize it))" using assms(2) by (simp add: has_decimal_deserialize)
  moreover have "JDict (deserialize it) \<in> set (map JDict (map deserialize recs))"
    using assms(1) by simp
  ultimately have "has_decimal (JList (map JDict (map deserialize recs)))"
    by (rule has_decimal.intros(2) [rotated])
  then show ?thesis
    by (rule has_decimal.intros(3) [where k = "''items''", rotated]) simp
qed

lemma build_response_Inr:
  assumes "build_response c b = Inr r"
  shows "statusCode r = c \<and> headers r = cors_headers \<and> isBase64Encoded r = False"
  using assms by (auto simp: build_response_def json_dumps_def split: if_splits)

section \<open>Facts about the operations\<close>

lemma str_uuid_nonempty: "str_uuid u \<noteq> []"
  by (simp add: str_uuid_def Let_def)

lemma missing_fields_dict:
  "missing_fields (JDict d) fs = Inr (filter (\<lambda>f. d f = None) fs)"
  by (induction fs) auto

lemma validate_ok_dict:
  assumes "create_validate_payload p = Inr (True, None)"
  shows "\<exists>d. p = JDict d"
proof (cases p)
  case (JDict d)
  then show ?thesis by simp
qed (use assms in \<open>auto simp: create_validate_payload_def split: sum.splits if_splits\<close>)

lemma not_nonempty_str_iff: "\<not> not_nonempty_str v \<longleftrightarrow> (\<exists>t. v = JStr t \<and> strip t \<noteq> [])"
  by (cases v) auto

lemma py_in_strset_True: "py_in_strset v xs = Inr True \<longleftrightarrow> (\<exists>t. v = JStr t \<and> t \<in> set xs)"
  by (cases v) auto

lemma isinstance_list_iff: "isinstance_list v \<longleftrightarrow> (\<exists>xs. v = JList xs)"
  by (cases v) auto

lemma validate_ok_iff:
  "create_validate_payload (JDict d) = Inr (True, None) \<longleftrightarrow> valid_create_payload d"
  apply (simp add: create_validate_payload_def missing_fields_dict valid_create_payload_def
      split: sum.splits option.splits)
  apply (auto simp: not_nonempty_str_iff py_in_strset_True isinstance_list_iff split: option.splits)
  done


lemma create_valid_unfold:
  assumes "httpMethod ev = Some ''POST''" and "parse_json_body w ev = Inr (JDict d)"
    and "create_validate_payload (JDict d) = Inr (True, None)"
  shows "create_lambda_handler w (Some ev) s =
     (let incident_id = str_uuid (uuid4 w);
          created_at = utcnow_isoformat w;
          item = new_item incident_id created_at d
      in case put_incident_item w item s of
           (Inl (ClientError c m), s1) \<Rightarrow>
             (build_response 500 (Some [''error'' \<mapsto> JStr ''InternalServerError'',
                           ''message'' \<mapsto> JStr ''Failed to create incident (DynamoDB)'',
                           ''detail'' \<mapsto> JStr m]), s1)
         | (Inl e, s1) \<Rightarrow> (Inl e, s1)
         | (Inr u, s1) \<Rightarrow>
             (case publish_incident_created_message w
                     (notification_payload incident_id created_at item) s1 of
                (Inl exc, s2) \<Rightarrow>
                  (build_response 202 (Some ((created_body incident_id created_at)
                             (''warning'' \<mapsto> JStr ''Incident stored but notification failed'',
                              ''sns_error'' \<mapsto> JStr (str_exn exc)))), s2)
              | (Inr u', s2) \<Rightarrow>
                  (build_response 201 (Some (created_body incident_id created_at)), s2)))"
  using assms by (simp add: create_lambda_handler_def is_options_request_def or_empty_def)

lemma put_success:
  assumes "put_incident_item w item s = (Inr u, s1)"
  shows "\<exists>k. item ''incident_id'' = Some (JStr k) \<and> map_of (table s) k = None \<and>
             s1 = s\<lparr>calls := calls s @ [PutItem item], table := table s @ [(k, item)]\<rparr>"
  using assms
  by (auto simp: put_incident_item_def table_put_item_def aws_def
      split: sum.splits option.splits json.splits if_splits)

lemma publish_table:
  assumes "publish_incident_created_message w p s1 = (r, s2)"
  shows "table s2 = table s1"
  using assms
  by (auto simp: publish_incident_created_message_def sns_publish_def aws_def json_dumps_def
      split: sum.splits option.splits if_splits)

lemma get_item_result:
  assumes "get_incident_item w k s = (Inr x, s1)"
  shows "x = map_option deserialize (map_of (table s) k) \<and> s1 = s\<lparr>calls := calls s @ [GetItem k]\<rparr>"
  using assms
  by (auto simp: get_incident_item_def table_get_item_def aws_def split: sum.splits option.splits)

lemma new_item_id: "new_item i c d ''incident_id'' = Some (JStr i)"
  by (simp add: new_item_def Let_def split: option.splits)

lemma get_found:
  assumes "httpMethod ev = Some ''GET''" and "pathParameters ev = Some ps" and "ps ''id'' = Some k"
    and "k \<noteq> []" and "get_incident_item w k s = (Inr (Some item), s1)" and "item \<noteq> Map.empty"
  shows "get_lambda_handler w (Some ev) s = (build_response 200 (Some item), s1)"
  using assms
  by (simp add: get_lambda_handler_def is_options_request_def or_empty_def path_id_def)

lemma new_item_nonempty: "new_item i c d \<noteq> Map.empty"
proof
  assume "new_item i c d = Map.empty"
  then have "new_item i c d ''incident_id'' = None" by simp
  then show False by (simp add: new_item_id)
qed

lemma new_item_dom:
  "dom (new_item i c d) =
     {''incident_id'', ''title'', ''description'', ''severity'', ''reported_by'', ''created_at'',
      ''status''} \<union> (if d ''tags'' = None then {} else {''tags''})"
  by (auto simp: new_item_def Let_def split: option.splits if_splits)

lemma new_item_depends:
  assumes "\<forall>k \<in> {''title'', ''description'', ''severity'', ''reported_by'', ''tags''}. d k = d' k"
  shows "new_item i c d = new_item i c d'"
  using assms by (simp add: new_item_def Let_def stripped_def subscript_def)

lemma new_item_fields:
  assumes "valid_create_payload d"
  shows "\<exists>t de rb. d ''title'' = Some (JStr t) \<and> d ''description'' = Some (JStr de) \<and>
           d ''reported_by'' = Some (JStr rb) \<and>
           new_item i c d ''title'' = Some (JStr (strip t)) \<and>
           new_item i c d ''description'' = Some (JStr (strip de)) \<and>
           new_item i c d ''reported_by'' = Some (JStr (strip rb)) \<and>
           new_item i c d ''severity'' = d ''severity'' \<and>
           new_item i c d ''tags'' = d ''tags'' \<and>
           new_item i c d ''status'' = Some (JStr ''open'') \<and>
           new_item i c d ''created_at'' = Some (JStr c) \<and>
           new_item i c d ''incident_id'' = Some (JStr i)"
  using assms
  by (auto simp: valid_create_payload_def new_item_def Let_def stripped_def subscript_def
      split: option.splits)

lemma ex_valid: "create_validate_payload (JDict payload_ex) = Inr (True, None)"
  by (simp add: create_validate_payload_def payload_ex_def strip_def isspace_def)

lemma ex_parse: "parse_json_body world_ok event_create = Inr (JDict payload_ex)"
  by (simp add: parse_json_body_def world_ok_def event_create_def loads_ex_def body_defs)

lemma ex_new_item: "new_item id_ex ''2024-05-01T12:00:00+00:00'' payload_ex = item_ex"
  by (simp add: new_item_def payload_ex_def item_ex_def stripped_def subscript_def strip_def
      isspace_def)

lemma ex_notification:
  "notification_payload id_ex ''2024-05-01T12:00:00+00:00'' item_ex = notification_ex"
  by (simp add: notification_payload_def notification_ex_def item_ex_def subscript_def)

lemma ex_plain:
  "\<not> has_number (JDict item_ex)" "\<not> has_number (JDict item_other)"
  "\<not> has_decimal (JDict notification_ex)" "deserialize item_ex = item_ex"
  "deserialize item_other = item_other"
proof -
  show a: "\<not> has_number (JDict item_ex)" by (simp add: item_ex_def)
  show b: "\<not> has_number (JDict item_other)" by (simp add: item_other_def)
  show "\<not> has_decimal (JDict notification_ex)" by (simp add: notification_ex_def)
  show "deserialize item_ex = item_ex" using a by (rule deserialize_plain)
  show "deserialize item_other = item_other" using b by (rule deserialize_plain)
qed

lemma ex_put: "put_incident_item world_ok item_ex cloud_empty =
    (Inr (), \<lparr>table = [(id_ex, item_ex)], calls = [PutItem item_ex]\<rparr>)"
  by (simp add: put_incident_item_def get_incidents_table_def get_env_var_def table_put_item_def
      aws_def world_ok_def env_ok_def cloud_empty_def item_ex_def)

lemma ex_publish: "publish_incident_created_message world_ok notification_ex
      \<lparr>table = [(id_ex, item_ex)], calls = [PutItem item_ex]\<rparr> =
    (Inr (), \<lparr>table = [(id_ex, item_ex)], calls = [PutItem item_ex, Publish notification_ex]\<rparr>)"
  by (simp add: publish_incident_created_message_def get_env_var_def sns_publish_def
      json_dumps_def ex_plain aws_def world_ok_def env_ok_def)

lemma ex_get: "get_incident_item world_ok id_ex
      \<lparr>table = [(id_ex, item_ex)], calls = [PutItem item_ex, Publish notification_ex]\<rparr> =
    (Inr (Some item_ex), \<lparr>table = [(id_ex, item_ex)],
        calls = [PutItem item_ex, Publish notification_ex, GetItem id_ex]\<rparr>)"
  by (simp add: get_incident_item_def get_incidents_table_def get_env_var_def table_get_item_def
      aws_def world_ok_def env_ok_def ex_plain)

lemma put_failure:
  assumes "put_incident_item w item s = (Inl e, s1)"
  shows "table s1 = table s"
  using assms
  by (auto simp: put_incident_item_def table_put_item_def aws_def
      split: sum.splits option.splits json.splits if_splits)

lemma create_valid_put_fail:
  assumes "httpMethod ev = Some ''POST''" and "parse_json_body w ev = Inr (JDict d)"
    and "create_validate_payload (JDict d) = Inr (True, None)"
    and "put_incident_item w (new_item (str_uuid (uuid4 w)) (utcnow_isoformat w) d) s = (Inl e, s1)"
  shows "snd (create_lambda_handler w (Some ev) s) = s1"
  using assms(4) by (cases e) (simp_all add: create_valid_unfold [OF assms(1-3)] Let_def)

lemma create_valid_put_ok:
  assumes "httpMethod ev = Some ''POST''" and "parse_json_body w ev = Inr (JDict d)"
    and "create_validate_payload (JDict d) = Inr (True, None)"
    and "put_incident_item w (new_item (str_uuid (uuid4 w)) (utcnow_isoformat w) d) s = (Inr u, s1)"
    and "publish_incident_created_message w
           (notification_payload (str_uuid (uuid4 w)) (utcnow_isoformat w)
              (new_item (str_uuid (uuid4 w)) (utcnow_isoformat w) d)) s1 = (r2, s2)"
  shows "snd (create_lambda_handler w (Some ev) s) = s2"
  using assms(4,5) by (cases r2) (simp_all add: create_valid_unfold [OF assms(1-3)] Let_def)

lemma ex_parse_extra:
  "parse_json_body world_ok event_create_extra = Inr (JDict payload_extra)"
  by (simp add: parse_json_body_def world_ok_def event_create_extra_def event_create_def
      loads_ex_def body_defs)

lemma ex_valid_extra: "create_validate_payload (JDict payload_extra) = Inr (True, None)"
  by (simp add: validate_ok_iff valid_create_payload_def payload_extra_def payload_ex_def
      strip_def isspace_def)

lemma ex_new_item_extra:
  "new_item id_ex ''2024-05-01T12:00:00+00:00'' payload_extra = item_ex"
  by (simp add: new_item_def payload_extra_def payload_ex_def item_ex_def stripped_def
      subscript_def strip_def isspace_def)

lemma update_validate_ok_iff:
  "update_validate_payload (JDict d) = Inr (True, None) \<longleftrightarrow>
     (\<exists>st. d ''status'' = Some (JStr st) \<and>
           st \<in> {''open'', ''in_progress'', ''resolved'', ''closed''})"
  by (auto simp: update_validate_payload_def py_in_strset_True split: option.splits sum.splits)

lemma update_valid_unfold:
  assumes "httpMethod ev = Some ''PATCH'' \<or> httpMethod ev = Some ''PUT''"
    and "pathParameters ev = Some ps" and "ps ''id'' = Some k" and "k \<noteq> []"
    and "parse_json_body w ev = Inr (JDict d)"
    and "update_validate_payload (JDict d) = Inr (True, None)"
    and "d ''status'' = Some (JStr st)"
  shows "update_lambda_handler w (Some ev) s =
     (case update_incident_status w k st (utcnow_isoformat w) s of
        (Inl (ClientError c m), s1) \<Rightarrow>
          if c = ''ConditionalCheckFailedException''
          then (build_response 404 (Some (not_found_body k)), s1)
          else (build_response 500 (Some [''error'' \<mapsto> JStr ''InternalServerError'',
                             ''message'' \<mapsto> JStr ''Failed to update incident status'',
                             ''detail'' \<mapsto> JStr m]), s1)
      | (Inl e, s1) \<Rightarrow> (Inl e, s1)
      | (Inr updated_item, s1) \<Rightarrow> (build_response 200 (Some updated_item), s1))"
  using assms
  by (auto simp: update_lambda_handler_def is_options_request_def or_empty_def path_id_def)

lemma update_status_result:
  assumes "update_incident_status w k st u s = (Inr x, s1)"
  shows "\<exists>it. map_of (table s) k = Some it \<and>
           x = deserialize (it(''status'' \<mapsto> JStr st, ''updated_at'' \<mapsto> JStr u)) \<and>
           s1 = s\<lparr>calls := calls s @ [UpdateItem k st u],
                  table := set_attrs k (\<lambda>i. i(''status'' \<mapsto> JStr st, ''updated_at'' \<mapsto> JStr u))
                             (table s)\<rparr>"
  using assms
  by (auto simp: update_incident_status_def table_update_item_def aws_def Let_def
      split: sum.splits option.splits)

lemma map_of_set_attrs:
  "map_of (set_attrs k f ps) k' =
     (if k' = k then map_option f (map_of ps k) else map_of ps k')"
  by (induction ps) auto

lemma map_fst_set_attrs: "map fst (set_attrs k f ps) = map fst ps"
  by (induction ps) auto

lemma ex_parse_update:
  "parse_json_body world_ok event_update = Inr (JDict [''status'' \<mapsto> JStr ''resolved''])"
  by (simp add: parse_json_body_def world_ok_def event_update_def loads_ex_def body_defs)

lemma ex_valid_update:
  "update_validate_payload (JDict [''status'' \<mapsto> JStr ''resolved'']) = Inr (True, None)"
  by (simp add: update_validate_ok_iff)

lemma length_str_uuid: "length (str_uuid u) = 36"
  by (simp add: str_uuid_def Let_def uuid_hex_def)

lemma id_ex_other: "id_ex \<noteq> ''7c0e''"
proof
  assume "id_ex = ''7c0e''"
  then have "length (str_uuid 0) = length ''7c0e''" by (simp only: id_ex_def)
  then show False by (simp add: length_str_uuid)
qed

lemma ex_update:
  "update_incident_status world_ok id_ex ''resolved'' ''2024-05-01T12:00:00+00:00'' cloud_two =
     (Inr (item_ex(''status'' \<mapsto> JStr ''resolved'',
                   ''updated_at'' \<mapsto> JStr ''2024-05-01T12:00:00+00:00'')), cloud_two_resolved)"
proof -
  have "\<not> has_number (JDict (item_ex(''status'' \<mapsto> JStr ''resolved'',
                   ''updated_at'' \<mapsto> JStr ''2024-05-01T12:00:00+00:00'')))"
    using ex_plain(1) by simp
  then have "deserialize (item_ex(''status'' \<mapsto> JStr ''resolved'',
                   ''updated_at'' \<mapsto> JStr ''2024-05-01T12:00:00+00:00'')) =
      item_ex(''status'' \<mapsto> JStr ''resolved'',
                   ''updated_at'' \<mapsto> JStr ''2024-05-01T12:00:00+00:00'')"
    by (rule deserialize_plain)
  then show ?thesis
    using id_ex_other
    by (auto simp: update_incident_status_def get_incidents_table_def get_env_var_def
      table_update_item_def aws_def world_ok_def env_ok_def cloud_two_def cloud_two_resolved_def
      Let_def)
qed

lemma page_split:
  "i < length ns \<Longrightarrow>
     page ns i xs @ drop (sum_list (take (Suc i) ns)) xs = drop (sum_list (take i ns)) xs"
proof (induction ns arbitrary: i xs)
  case Nil
  then show ?case by simp
next
  case (Cons n ns)
  show ?case
  proof (cases i)
    case 0
    then show ?thesis by simp
  next
    case (Suc j)
    with Cons.prems have "j < length ns" by simp
    from Cons.IH [OF this, of "drop n xs"] show ?thesis
      unfolding Suc by (simp add: add.commute)
  qed
qed

lemma page_last: "page ns (length ns) xs = drop (sum_list ns) xs"
proof (induction ns arbitrary: xs)
  case Nil
  then show ?case by simp
next
  case (Cons n ns)
  then show ?case by (simp add: add.commute)
qed

lemma scan_loop_all:
  assumes "\<forall>n\<ge>length (calls s). aws_fault w n = None"
    and "(case start of None \<Rightarrow> 0 | Some p \<Rightarrow> p) \<le> length (page_sizes w)"
  shows "fst (scan_loop w start items s) =
           Inr (items @ drop (sum_list (take (case start of None \<Rightarrow> 0 | Some p \<Rightarrow> p)
                                          (page_sizes w)))
                          (map (deserialize \<circ> snd) (table s)))
       \<and> table (snd (scan_loop w start items s)) = table s"
  using assms
proof (induction "length (page_sizes w) - (case start of None \<Rightarrow> 0 | Some p \<Rightarrow> p)"
    arbitrary: start items s rule: less_induct)
  case less
  let ?pos = "case start of None \<Rightarrow> 0 | Some p \<Rightarrow> p"
  let ?ns = "page_sizes w"
  let ?all = "map (deserialize \<circ> snd) (table s)"
  let ?s1 = "s\<lparr>calls := calls s @ [Scan start]\<rparr>"
  have ts: "table_scan w start s =
      (Inr \<lparr>Items = page ?ns ?pos ?all,
            LastEvaluatedKey = (if ?pos < length ?ns then Some (Suc ?pos) else None)\<rparr>, ?s1)"
    using less.prems(1) by (simp add: table_scan_def aws_def Let_def)
  show ?case
  proof (cases "?pos < length ?ns")
    case True
    have step: "scan_loop w start items s =
        scan_loop w (Some (Suc ?pos)) (items @ page ?ns ?pos ?all) ?s1"
      using True by (simp add: scan_loop.simps [of w start items s] ts)
    have smaller: "length ?ns - (case Some (Suc ?pos) of None \<Rightarrow> 0 | Some p \<Rightarrow> p)
        < length ?ns - ?pos"
      using True by simp
    have nf: "\<forall>n\<ge>length (calls ?s1). aws_fault w n = None"
      using less.prems(1) by simp
    have le: "(case Some (Suc ?pos) of None \<Rightarrow> 0 | Some p \<Rightarrow> p) \<le> length ?ns"
      using True by simp
    have tbl: "table ?s1 = table s" by simp
    from less.hyps [OF smaller nf le, of "items @ page ?ns ?pos ?all"]
    have IH: "fst (scan_loop w (Some (Suc ?pos)) (items @ page ?ns ?pos ?all) ?s1) =
          Inr ((items @ page ?ns ?pos ?all) @ drop (sum_list (take (Suc ?pos) ?ns)) ?all)"
      and IH2: "table (snd (scan_loop w (Some (Suc ?pos)) (items @ page ?ns ?pos ?all) ?s1)) =
          table s"
      unfolding tbl by simp_all
    have "(items @ page ?ns ?pos ?all) @ drop (sum_list (take (Suc ?pos) ?ns)) ?all =
        items @ drop (sum_list (take ?pos ?ns)) ?all"
      unfolding append_assoc page_split [OF True] ..
    with IH IH2 show ?thesis unfolding step by simp
  next
    case False
    with less.prems(2) have eq: "?pos = length ?ns" by simp
    have "scan_loop w start items s = (Inr (items @ page ?ns ?pos ?all), ?s1)"
      using False by (simp add: scan_loop.simps [of w start items s] ts)
    moreover have "page ?ns ?pos ?all = drop (sum_list (take ?pos ?ns)) ?all"
      unfolding eq by (simp add: page_last)
    ultimately show ?thesis by simp
  qed
qed

lemma ex_env: "get_incidents_table world_ok = Inr ''incidents''"
  "get_incidents_table world_wide = Inr ''incidents''"
  "get_incidents_table world_throttled = Inr ''incidents''"
  "get_incidents_table world_sns_down = Inr ''incidents''"
  by (simp_all add: get_incidents_table_def get_env_var_def world_ok_def world_wide_def
      world_throttled_def world_sns_down_def env_ok_def)

lemma update_missing:
  assumes "map_of (table s) k = None" and "get_incidents_table w = Inr tn"
    and "aws_fault w (length (calls s)) = None"
  shows "update_incident_status w k st u s =
     (Inl (ClientError ''ConditionalCheckFailedException''
            (''An error occurred (ConditionalCheckFailedException) when ''
             @ ''calling the UpdateItem operation: The conditional request failed'')),
      s\<lparr>calls := calls s @ [UpdateItem k st u]\<rparr>)"
  using assms by (simp add: update_incident_status_def table_update_item_def aws_def)

lemma get_unfold:
  assumes "httpMethod ev = Some ''GET''" and "pathParameters ev = Some ps" and "ps ''id'' = Some k"
    and "k \<noteq> []"
  shows "get_lambda_handler w (Some ev) s =
     (case get_incident_item w k s of
        (Inl (ClientError c m), s1) \<Rightarrow>
          (build_response 500 (Some [''error'' \<mapsto> JStr ''InternalServerError'',
                        ''message'' \<mapsto> JStr ''Failed to fetch incident'',
                        ''detail'' \<mapsto> JStr m]), s1)
      | (Inl e, s1) \<Rightarrow> (Inl e, s1)
      | (Inr None, s1) \<Rightarrow> (build_response 404 (Some (not_found_body k)), s1)
      | (Inr (Some item), s1) \<Rightarrow>
          if item = Map.empty
          then (build_response 404 (Some (not_found_body k)), s1)
          else (build_response 200 (Some item), s1))"
  using assms
  by (simp add: get_lambda_handler_def is_options_request_def or_empty_def path_id_def)

lemma list_unfold:
  assumes "httpMethod ev = Some ''GET''"
  shows "list_lambda_handler w (Some ev) s =
     (case scan_incidents w s of
        (Inl (ClientError c m), s1) \<Rightarrow>
          (build_response 500 (Some [''error'' \<mapsto> JStr ''InternalServerError'',
                        ''message'' \<mapsto> JStr ''Failed to list incidents'',
                        ''detail'' \<mapsto> JStr m]), s1)
      | (Inl e, s1) \<Rightarrow> (Inl e, s1)
      | (Inr items, s1) \<Rightarrow>
          (build_response 200 (Some [''items'' \<mapsto> JList (map JDict items)]), s1))"
  using assms
  by (simp add: list_lambda_handler_def is_options_request_def or_empty_def)

lemma ex_update_event:
  "httpMethod event_update = Some ''PATCH'' \<or> httpMethod event_update = Some ''PUT''"
  "pathParameters event_update = Some [''id'' \<mapsto> id_ex]"
  "[''id'' \<mapsto> id_ex] ''id'' = Some id_ex" "id_ex \<noteq> []"
  "[''status'' \<mapsto> JStr ''resolved''] ''status'' = Some (JStr ''resolved'')"
  by (simp_all add: event_update_def id_ex_def str_uuid_nonempty)

lemma ex_parse_throttled:
  "parse_json_body world_throttled event_update = Inr (JDict [''status'' \<mapsto> JStr ''resolved''])"
  "parse_json_body world_throttled event_create = Inr (JDict payload_ex)"
  "parse_json_body world_noenv event_update = Inr (JDict [''status'' \<mapsto> JStr ''resolved''])"
  by (simp_all add: parse_json_body_def world_throttled_def world_noenv_def world_ok_def
      event_update_def event_create_def loads_ex_def body_defs)

lemma ex_now:
  "utcnow_isoformat world_ok = ''2024-05-01T12:00:00+00:00''"
  "utcnow_isoformat world_throttled = ''2024-05-01T12:00:00+00:00''"
  "utcnow_isoformat world_noenv = ''2024-05-01T12:00:00+00:00''"
  "str_uuid (uuid4 world_ok) = id_ex" "str_uuid (uuid4 world_throttled) = id_ex"
  by (simp_all add: world_ok_def world_throttled_def world_noenv_def id_ex_def)

lemma ex_fault:
  "aws_fault world_throttled n =
     Some (ClientError ''ProvisionedThroughputExceededException'' ''rate exceeded'')"
  "aws_fault world_ok n = None"
  by (simp_all add: world_throttled_def world_ok_def)

lemma ex_throttled_calls:
  "update_incident_status world_throttled id_ex ''resolved'' ''2024-05-01T12:00:00+00:00'' s =
     (Inl (ClientError ''ProvisionedThroughputExceededException'' ''rate exceeded''),
      s\<lparr>calls := calls s @ [UpdateItem id_ex ''resolved'' ''2024-05-01T12:00:00+00:00'']\<rparr>)"
  "put_incident_item world_throttled item s =
     (Inl (ClientError ''ProvisionedThroughputExceededException'' ''rate exceeded''),
      s\<lparr>calls := calls s @ [PutItem item]\<rparr>)"
  "get_incident_item world_throttled id_ex s =
     (Inl (ClientError ''ProvisionedThroughputExceededException'' ''rate exceeded''),
      s\<lparr>calls := calls s @ [GetItem id_ex]\<rparr>)"
  "scan_incidents world_throttled s =
     (Inl (ClientError ''ProvisionedThroughputExceededException'' ''rate exceeded''),
      s\<lparr>calls := calls s @ [Scan None]\<rparr>)"
  by (simp_all add: update_incident_status_def put_incident_item_def get_incident_item_def
      scan_incidents_def ex_env table_update_item_def table_put_item_def table_get_item_def
      scan_loop.simps [of world_throttled None "[]" s] table_scan_def aws_def ex_fault)

lemma validate_create_shape:
  assumes "create_validate_payload p = Inr (v, b)"
  shows "(v \<and> b = None) \<or> (\<not> v \<and> (\<exists>m. b = Some (validation_error m)))"
proof (cases p)
  case (JDict d)
  show ?thesis
  proof (cases "valid_create_payload d")
    case True
    with assms JDict show ?thesis by (simp add: validate_ok_iff [symmetric])
  next
    case False
    then have ne: "create_validate_payload (JDict d) \<noteq> Inr (True, None)"
      by (simp add: validate_ok_iff)
    have "missing_fields (JDict d) [''title'', ''description'', ''severity'', ''reported_by'']
        = Inr (filter (\<lambda>f. d f = None) [''title'', ''description'', ''severity'', ''reported_by''])"
      by (rule missing_fields_dict)
    then obtain ms where ms: "missing_fields (JDict d)
        [''title'', ''description'', ''severity'', ''reported_by''] = Inr ms" by blast
    from assms ne show ?thesis
      unfolding JDict create_validate_payload_def ms
      by (auto split: sum.splits if_splits)
  qed
qed (use assms in \<open>auto simp: create_validate_payload_def split: sum.splits if_splits\<close>)

lemma validate_update_shape:
  assumes "update_validate_payload p = Inr (v, b)"
  shows "(v \<and> b = None) \<or> (\<not> v \<and> (\<exists>m. b = Some (validation_error m)))"
  using assms
  by (auto simp: update_validate_payload_def split: sum.splits if_splits)

lemma validate_update_ok_dict:
  assumes "update_validate_payload p = Inr (True, None)"
  shows "\<exists>d st. p = JDict d \<and> d ''status'' = Some (JStr st)"
proof (cases p)
  case (JDict d)
  with assms show ?thesis by (auto simp: update_validate_ok_iff)
qed (use assms in \<open>auto simp: update_validate_payload_def split: sum.splits if_splits\<close>)

lemma shape_simps:
  "answer_shape s (answer 204 Map.empty) s"
  "answer_shape s (answer 405 [''error'' \<mapsto> JStr ''MethodNotAllowed'',
       ''message'' \<mapsto> JStr m]) s"
  "answer_shape s (answer 400 [''error'' \<mapsto> JStr ''BadRequest'',
       ''message'' \<mapsto> JStr m]) s"
  "answer_shape s (answer 400 path_id_required) s"
  "answer_shape s (answer 400 (validation_error m)) s"
  "answer_shape s (answer 404 (not_found_body k)) s'"
  "answer_shape s (answer 500 [''error'' \<mapsto> JStr ''InternalServerError'',
       ''message'' \<mapsto> JStr m, ''detail'' \<mapsto> JStr t]) s'"
  "answer_shape s (answer 200 b) s'"
  "answer_shape s (answer 201 b) s'"
  "answer_shape s (answer 202 b) s'"
  by (simp_all add: answer_shape_def error_body_def validation_error_def
      path_id_required_def not_found_body_def)

lemma shape_200: "build_response 200 b = Inr r \<Longrightarrow> answer_shape s r s'"
  using build_response_Inr [of 200 b r] by (simp add: answer_shape_def)

lemma create_outcomes:
  assumes run: "create_lambda_handler w ev s = (Inr r, s')"
  shows "answer_shape s r s'"
proof (cases "is_options_request ev")
  case True
  with run show ?thesis by (auto simp: create_lambda_handler_def shape_simps)
next
  case no: False
  show ?thesis
  proof (cases "httpMethod (or_empty ev) = Some ''POST''")
    case False
    with run no show ?thesis by (auto simp: create_lambda_handler_def shape_simps)
  next
    case post: True
    show ?thesis
    proof (cases "parse_json_body w (or_empty ev)")
      case (Inl e)
      with run no post show ?thesis
        by (cases e) (auto simp: create_lambda_handler_def shape_simps)
    next
      case parse: (Inr payload)
      show ?thesis
      proof (cases "create_validate_payload payload")
        case (Inl e)
        with run no post parse show ?thesis by (simp add: create_lambda_handler_def)
      next
        case (Inr vb)
        then obtain v b where vb: "create_validate_payload payload = Inr (v, b)"
          by (cases vb) simp
        show ?thesis
        proof (cases v)
          case False
          with validate_create_shape [OF vb] obtain m where "b = Some (validation_error m)"
            by auto
          with run no post parse vb False show ?thesis
            by (auto simp: create_lambda_handler_def shape_simps)
        next
          case True
          with validate_create_shape [OF vb] have vb': "create_validate_payload payload = Inr (True, None)"
            using vb by auto
          then obtain d where d: "payload = JDict d" using validate_ok_dict by blast
          let ?i = "str_uuid (uuid4 w)" and ?c = "utcnow_isoformat w"
          obtain rp s1 where put: "put_incident_item w (new_item ?i ?c d) s = (rp, s1)"
            by (cases "put_incident_item w (new_item ?i ?c d) s")
          show ?thesis
          proof (cases rp)
            case (Inl e)
            with run no post parse vb' d put show ?thesis
              by (cases e) (auto simp: create_lambda_handler_def shape_simps Let_def)
          next
            case (Inr u)
            obtain rq s2 where pub: "publish_incident_created_message w
                (notification_payload ?i ?c (new_item ?i ?c d)) s1 = (rq, s2)"
              by (cases "publish_incident_created_message w
                (notification_payload ?i ?c (new_item ?i ?c d)) s1")
            with run no post parse vb' d put Inr show ?thesis
              by (cases rq) (auto simp: create_lambda_handler_def shape_simps Let_def)
          qed
        qed
      qed
    qed
  qed
qed

lemma get_outcomes:
  assumes run: "get_lambda_handler w ev s = (Inr r, s')"
  shows "answer_shape s r s'"
proof (cases "is_options_request ev")
  case True
  with run show ?thesis by (auto simp: get_lambda_handler_def shape_simps)
next
  case no: False
  show ?thesis
  proof (cases "httpMethod (or_empty ev) = Some ''GET''")
    case False
    with run no show ?thesis by (auto simp: get_lambda_handler_def shape_simps)
  next
    case meth: True
    show ?thesis
    proof (cases "path_id ev")
      case None
      with run no meth show ?thesis by (auto simp: get_lambda_handler_def shape_simps)
    next
      case (Some k)
      show ?thesis
      proof (cases "k = []")
        case True
        with run no meth Some show ?thesis by (auto simp: get_lambda_handler_def shape_simps)
      next
        case False
        obtain rg s1 where g: "get_incident_item w k s = (rg, s1)"
          by (cases "get_incident_item w k s")
        show ?thesis
        proof (cases rg)
          case (Inl e)
          with run no meth Some False g show ?thesis
            by (cases e) (auto simp: get_lambda_handler_def shape_simps)
        next
          case (Inr x)
          with run no meth Some False g show ?thesis
            by (cases x) (auto simp: get_lambda_handler_def shape_simps intro: shape_200
                split: if_splits)
        qed
      qed
    qed
  qed
qed

lemma list_outcomes:
  assumes run: "list_lambda_handler w ev s = (Inr r, s')"
  shows "answer_shape s r s'"
proof (cases "is_options_request ev")
  case True
  with run show ?thesis by (auto simp: list_lambda_handler_def shape_simps)
next
  case no: False
  show ?thesis
  proof (cases "httpMethod (or_empty ev) = Some ''GET''")
    case False
    with run no show ?thesis by (auto simp: list_lambda_handler_def shape_simps)
  next
    case meth: True
    obtain rl s1 where l: "scan_incidents w s = (rl, s1)"
      by (cases "scan_incidents w s")
    show ?thesis
    proof (cases rl)
      case (Inl e)
      with run no meth l show ?thesis
        by (cases e) (auto simp: list_lambda_handler_def shape_simps)
    next
      case (Inr items)
      with run no meth l show ?thesis
        by (auto simp: list_lambda_handler_def intro: shape_200)
    qed
  qed
qed

lemma update_outcomes:
  assumes run: "update_lambda_handler w ev s = (Inr r, s')"
  shows "answer_shape s r s'"
proof (cases "is_options_request ev")
  case True
  with run show ?thesis by (auto simp: update_lambda_handler_def shape_simps)
next
  case no: False
  show ?thesis
  proof (cases "httpMethod (or_empty ev) = Some ''PATCH'' \<or> httpMethod (or_empty ev) = Some ''PUT''")
    case False
    with run no show ?thesis by (auto simp: update_lambda_handler_def shape_simps)
  next
    case True
    then have meth: "httpMethod (or_empty ev) \<in> {Some ''PATCH'', Some ''PUT''}" by auto
    show ?thesis
    proof (cases "path_id ev")
      case None
      with run no meth show ?thesis by (auto simp: update_lambda_handler_def shape_simps)
    next
      case (Some k)
      show ?thesis
      proof (cases "k = []")
        case True
        with run no meth Some show ?thesis
          by (auto simp: update_lambda_handler_def shape_simps)
      next
        case ne: False
        show ?thesis
        proof (cases "parse_json_body w (or_empty ev)")
          case (Inl e)
          with run no meth Some ne show ?thesis
            by (cases e) (auto simp: update_lambda_handler_def shape_simps)
        next
          case parse: (Inr payload)
          show ?thesis
          proof (cases "update_validate_payload payload")
            case (Inl e)
            with run no meth Some ne parse show ?thesis
              by (auto simp: update_lambda_handler_def)
          next
            case (Inr vb)
            then obtain v b where vb: "update_validate_payload payload = Inr (v, b)"
              by (cases vb) simp
            show ?thesis
            proof (cases v)
              case False
              with validate_update_shape [OF vb] obtain m where "b = Some (validation_error m)"
                by auto
              with run no meth Some ne parse vb False show ?thesis
                by (auto simp: update_lambda_handler_def shape_simps)
            next
              case True
              with validate_update_shape [OF vb] have vb': "update_validate_payload payload = Inr (True, None)"
                using vb by auto
              then obtain d st where d: "payload = JDict d" "d ''status'' = Some (JStr st)"
                using validate_update_ok_dict by blast
              obtain ru s1 where u: "update_incident_status w k st (utcnow_isoformat w) s = (ru, s1)"
                by (cases "update_incident_status w k st (utcnow_isoformat w) s")
              show ?thesis
              proof (cases ru)
                case (Inl e)
                with run no meth Some ne parse vb' d u show ?thesis
                  by (cases e) (auto simp: update_lambda_handler_def shape_simps split: if_splits)
              next
                case (Inr x)
                with run no meth Some ne parse vb' d u show ?thesis
                  by (auto simp: update_lambda_handler_def intro: shape_200)
              qed
            qed
          qed
        qed
      qed
    qed
  qed
qed



lemma ex_parse_bogus:
  "parse_json_body world_throttled event_update_bogus =
     Inr (JDict [''status'' \<mapsto> JStr ''bogus''])"
  by (simp add: parse_json_body_def world_throttled_def world_ok_def event_update_bogus_def
      event_update_def loads_ex_def body_defs)


section \<open>Records that hold numbers\<close>

lemma deserialize_empty: "deserialize item = Map.empty \<longleftrightarrow> item = Map.empty"
proof
  assume e: "deserialize item = Map.empty"
  show "item = Map.empty"
  proof
    fix k
    from e have "deserialize item k = None" by simp
    then show "item k = None" by (simp add: deserialize_def)
  qed
next
  assume "item = Map.empty"
  then show "deserialize item = Map.empty" by (simp add: deserialize_def)
qed

lemma new_item_number:
  assumes "valid_create_payload d"
  shows "has_number (JDict (new_item i c d)) \<longleftrightarrow> (\<exists>t. d ''tags'' = Some t \<and> has_number t)"
proof -
  obtain t de rb sv where f: "d ''title'' = Some (JStr t)" "d ''description'' = Some (JStr de)"
    "d ''reported_by'' = Some (JStr rb)" "d ''severity'' = Some (JStr sv)"
    using assms unfolding valid_create_payload_def by blast
  let ?base = "[''incident_id'' \<mapsto> JStr i, ''title'' \<mapsto> JStr (strip t),
      ''description'' \<mapsto> JStr (strip de), ''severity'' \<mapsto> JStr sv,
      ''reported_by'' \<mapsto> JStr (strip rb), ''created_at'' \<mapsto> JStr c,
      ''status'' \<mapsto> JStr ''open'']"
  have base: "\<not> has_number (JDict ?base)" by simp
  show ?thesis
  proof (cases "d ''tags''")
    case None
    then have "new_item i c d = ?base"
      by (simp add: new_item_def Let_def stripped_def subscript_def f)
    with base None show ?thesis by simp
  next
    case (Some tags)
    then have n: "new_item i c d = ?base(''tags'' \<mapsto> tags)"
      by (simp add: new_item_def Let_def stripped_def subscript_def f)
    show ?thesis
    proof (cases "has_number tags")
      case True
      from True have "has_number (JDict (?base(''tags'' \<mapsto> tags)))"
        by (rule has_number.intros(5) [where k = "''tags''", rotated]) simp
      with Some True n show ?thesis by simp
    next
      case False
      from False base have "\<not> has_number (JDict (?base(''tags'' \<mapsto> tags)))"
        by (rule no_number_upd)
      with Some False n show ?thesis by simp
    qed
  qed
qed

lemma get_decimal:
  assumes "httpMethod ev = Some ''GET''" and "pathParameters ev = Some ps" and "ps ''id'' = Some k"
    and "k \<noteq> []" and "get_incident_item w k s = (Inr (Some item), s1)"
    and "has_decimal (JDict item)"
  shows "get_lambda_handler w (Some ev) s =
     (Inl (TypeError ''Object of type Decimal is not JSON serializable''), s1)"
proof -
  have "item \<noteq> Map.empty" using assms(6) by auto
  from get_found [OF assms(1-5) this] show ?thesis
    by (simp add: build_response_decimal [OF assms(6)])
qed

lemma stored_get:
  assumes get: "httpMethod ev = Some ''GET''" "pathParameters ev = Some ps" "ps ''id'' = Some k"
    and k: "k \<noteq> []" and read: "get_incident_item w k s = (Inr x, s1)"
    and stored: "map_of (table s) k = Some item" and ne: "item \<noteq> Map.empty"
  shows "\<not> has_number (JDict item) \<Longrightarrow>
           get_lambda_handler w (Some ev) s = (Inr (answer 200 item), s1)"
    and "has_number (JDict item) \<Longrightarrow>
           get_lambda_handler w (Some ev) s =
             (Inl (TypeError ''Object of type Decimal is not JSON serializable''), s1)"
proof -
  have x: "x = Some (deserialize item)" using get_item_result [OF read] stored by simp
  have ne': "deserialize item \<noteq> Map.empty" using ne by (simp add: deserialize_empty)
  {
    assume plain: "\<not> has_number (JDict item)"
    then have "deserialize item = item" by (rule deserialize_plain)
    moreover have "\<not> has_decimal (JDict item)" using plain has_decimal_number by blast
    ultimately show "get_lambda_handler w (Some ev) s = (Inr (answer 200 item), s1)"
      using get_found [OF get k read [unfolded x] ne'] by simp
  }
  {
    assume "has_number (JDict item)"
    then have "has_decimal (JDict (deserialize item))" by (simp add: has_decimal_deserialize)
    from get_decimal [OF get k read [unfolded x] this]
    show "get_lambda_handler w (Some ev) s =
        (Inl (TypeError ''Object of type Decimal is not JSON serializable''), s1)" .
  }
qed

lemma ex_num:
  "create_validate_payload (JDict payload_num) = Inr (True, None)"
  "parse_json_body world_ok event_create_num = Inr (JDict payload_num)"
  "parse_json_body world_sns_down event_create_num = Inr (JDict payload_num)"
  "new_item id_ex ''2024-05-01T12:00:00+00:00'' payload_num = item_num"
  "notification_payload id_ex ''2024-05-01T12:00:00+00:00'' item_num = notification_ex"
  "httpMethod event_create_num = Some ''POST''"
  "has_number (JDict item_num)"
  "item_num \<noteq> Map.empty"
proof -
  show "create_validate_payload (JDict payload_num) = Inr (True, None)"
    by (simp add: create_validate_payload_def payload_num_def payload_ex_def strip_def
        isspace_def)
  show "parse_json_body world_ok event_create_num = Inr (JDict payload_num)"
    by (simp add: parse_json_body_def world_ok_def event_create_num_def event_create_def
        loads_ex_def body_defs)
  show "parse_json_body world_sns_down event_create_num = Inr (JDict payload_num)"
    by (simp add: parse_json_body_def world_sns_down_def world_ok_def event_create_num_def
        event_create_def loads_ex_def body_defs)
  have "new_item id_ex ''2024-05-01T12:00:00+00:00'' payload_num =
      (new_item id_ex ''2024-05-01T12:00:00+00:00'' payload_ex)
        (''tags'' \<mapsto> JList [JInt 1, JInt 2])"
    by (simp add: new_item_def Let_def stripped_def subscript_def payload_num_def payload_ex_def)
  then show n: "new_item id_ex ''2024-05-01T12:00:00+00:00'' payload_num = item_num"
    by (simp add: ex_new_item item_num_def)
  show "notification_payload id_ex ''2024-05-01T12:00:00+00:00'' item_num = notification_ex"
    by (simp add: notification_payload_def subscript_def item_num_def item_ex_def
        notification_ex_def)
  show "httpMethod event_create_num = Some ''POST''"
    by (simp add: event_create_num_def event_create_def)
  have "has_number (JList [JInt 1, JInt 2])"
    by (rule has_number.intros(4) [of "JInt 1"]) simp_all
  then show "has_number (JDict item_num)"
    by (rule has_number.intros(5) [where k = "''tags''", rotated]) (simp add: item_num_def)
  show "item_num \<noteq> Map.empty"
    unfolding n [symmetric] by (rule new_item_nonempty)
qed

lemma ex_put_num:
  assumes "getenv w = env_ok" and "aws_fault w 0 = None"
  shows "put_incident_item w item_num cloud_empty =
     (Inr (), \<lparr>table = [(id_ex, item_num)], calls = [PutItem item_num]\<rparr>)"
  using assms
  by (simp add: put_incident_item_def get_incidents_table_def get_env_var_def table_put_item_def
      aws_def env_ok_def cloud_empty_def item_num_def item_ex_def)

lemma ex_get_num:
  assumes "table s = [(id_ex, item_num)]"
  shows "get_lambda_handler world_ok (Some event_get) s =
     (Inl (TypeError ''Object of type Decimal is not JSON serializable''),
      s\<lparr>calls := calls s @ [GetItem id_ex]\<rparr>)"
proof -
  have get: "httpMethod event_get = Some ''GET''"
    "pathParameters event_get = Some [''id'' \<mapsto> id_ex]"
    "[''id'' \<mapsto> id_ex] ''id'' = Some id_ex" "id_ex \<noteq> []"
    by (simp_all add: event_get_def id_ex_def str_uuid_nonempty)
  have read: "get_incident_item world_ok id_ex s =
      (Inr (Some (deserialize item_num)), s\<lparr>calls := calls s @ [GetItem id_ex]\<rparr>)"
    by (simp add: get_incident_item_def ex_env table_get_item_def aws_def ex_fault assms)
  have st: "map_of (table s) id_ex = Some item_num" by (simp add: assms)
  from stored_get(2) [OF get read st ex_num(8) ex_num(7)] show ?thesis .
qed

lemma list_all:
  assumes "httpMethod ev = Some ''GET''"
    and "get_incidents_table w = Inr tn"
    and "\<forall>n\<ge>length (calls s). aws_fault w n = None"
  shows "fst (scan_incidents w s) = Inr (map (deserialize \<circ> snd) (table s))"
    and "table (snd (scan_incidents w s)) = table s"
    and "list_lambda_handler w (Some ev) s =
      (build_response 200
         (Some [''items'' \<mapsto> JList (map JDict (map deserialize (map snd (table s))))]),
       snd (scan_incidents w s))"
proof -
  have sc: "scan_incidents w s = scan_loop w None [] s"
    using assms(2) by (simp add: scan_incidents_def)
  from scan_loop_all [OF assms(3), of None "[]"]
  show a: "fst (scan_incidents w s) = Inr (map (deserialize \<circ> snd) (table s))"
    and "table (snd (scan_incidents w s)) = table s"
    unfolding sc by simp_all
  obtain r s1 where rs: "scan_incidents w s = (r, s1)" by (cases "scan_incidents w s")
  with a have r: "r = Inr (map (deserialize \<circ> snd) (table s))" by simp
  show "list_lambda_handler w (Some ev) s =
      (build_response 200
         (Some [''items'' \<mapsto> JList (map JDict (map deserialize (map snd (table s))))]),
       snd (scan_incidents w s))"
    unfolding list_unfold [OF assms(1)] rs r by simp
qed

lemma ex_noenv_calls:
  "update_incident_status world_noenv k st u s =
     (Inl (RuntimeError ''Missing required environment variable: INCIDENTS_TABLE_NAME''), s)"
  "put_incident_item world_noenv item s =
     (Inl (RuntimeError ''Missing required environment variable: INCIDENTS_TABLE_NAME''), s)"
  "get_incident_item world_noenv k s =
     (Inl (RuntimeError ''Missing required environment variable: INCIDENTS_TABLE_NAME''), s)"
  "scan_incidents world_noenv s =
     (Inl (RuntimeError ''Missing required environment variable: INCIDENTS_TABLE_NAME''), s)"
  "parse_json_body world_noenv event_create = Inr (JDict payload_ex)"
  by (simp_all add: update_incident_status_def put_incident_item_def get_incident_item_def
      scan_incidents_def get_incidents_table_def get_env_var_def world_noenv_def
      parse_json_body_def world_ok_def event_create_def loads_ex_def body_defs)
section \<open>Create, then get\<close>

text \<open>
  C1 (amended). When the payload of a POST passes validation, the store write succeeds
  and the publish succeeds, the create handler answers 201 with exactly
  \<open>incident_id\<close>, \<open>status = created\<close> and \<open>created_at\<close>, and the store holds under that
  id a record whose title, description and reported\_by are the stripped payload values,
  whose severity and tags are the payload's, whose status is \<open>open\<close> and whose
  created\_at is the one of the create response. A later GET on that id whose store read
  does not raise answers 200 with that record when the payload's tags hold no number.
\<close>

theorem create_then_get:
  assumes post: "httpMethod ev = Some ''POST''"
    and parse: "parse_json_body w ev = Inr (JDict d)"
    and valid: "create_validate_payload (JDict d) = Inr (True, None)"
    and names: "incident_id = str_uuid (uuid4 w)" "created_at = utcnow_isoformat w"
      "item = new_item incident_id created_at d"
    and put: "put_incident_item w item s = (Inr (), s1)"
    and pub: "publish_incident_created_message w
               (notification_payload incident_id created_at item) s1 = (Inr (), s2)"
    and get: "httpMethod ev' = Some ''GET''" "pathParameters ev' = Some ps"
      "ps ''id'' = Some incident_id"
    and read: "get_incident_item w' incident_id s2 = (Inr x, s3)"
  shows "create_lambda_handler w (Some ev) s =
           (Inr \<lparr>statusCode = 201, headers = cors_headers,
                 body = [''incident_id'' \<mapsto> JStr incident_id,
                         ''status'' \<mapsto> JStr ''created'',
                         ''created_at'' \<mapsto> JStr created_at],
                 isBase64Encoded = False\<rparr>, s2)
       \<and> map_of (table s2) incident_id = Some item
       \<and> ((\<forall>t. d ''tags'' = Some t \<longrightarrow> \<not> has_number t) \<longrightarrow>
            get_lambda_handler w' (Some ev') s2 =
              (Inr \<lparr>statusCode = 200, headers = cors_headers, body = item,
                    isBase64Encoded = False\<rparr>, s3))
       \<and> (\<exists>t. d ''title'' = Some (JStr t) \<and> item ''title'' = Some (JStr (strip t)))
       \<and> (\<exists>t. d ''description'' = Some (JStr t) \<and> item ''description'' = Some (JStr (strip t)))
       \<and> (\<exists>t. d ''reported_by'' = Some (JStr t) \<and> item ''reported_by'' = Some (JStr (strip t)))
       \<and> item ''severity'' = d ''severity''
       \<and> item ''tags'' = d ''tags''
       \<and> item ''status'' = Some (JStr ''open'')
       \<and> item ''created_at'' = Some (JStr created_at)"
proof -
  have resp: "create_lambda_handler w (Some ev) s =
      (Inr (answer 201 (created_body incident_id created_at)), s2)"
    using create_valid_unfold [OF post parse valid, of s] put pub names by (simp add: Let_def)
  from put_success [OF put] have t1: "map_of (table s) incident_id = None"
    and s1: "table s1 = table s @ [(incident_id, item)]"
    by (auto simp: new_item_id names)
  have "table s2 = table s1" using publish_table [OF pub] .
  then have stored: "map_of (table s2) incident_id = Some item"
    using s1 t1 by (simp add: map_add_def)
  have ne: "incident_id \<noteq> []" "item \<noteq> Map.empty"
    by (simp_all add: names str_uuid_nonempty new_item_nonempty)
  from valid have v: "valid_create_payload d" by (simp add: validate_ok_iff)
  have num: "has_number (JDict item) \<longleftrightarrow> (\<exists>t. d ''tags'' = Some t \<and> has_number t)"
    unfolding names(3) by (rule new_item_number [OF v])
  note g = stored_get [OF get ne(1) read stored ne(2)]
  have g1: "(\<forall>t. d ''tags'' = Some t \<longrightarrow> \<not> has_number t) \<longrightarrow>
      get_lambda_handler w' (Some ev') s2 = (Inr (answer 200 item), s3)"
    using g(1) num by blast
  have resp': "create_lambda_handler w (Some ev) s =
           (Inr (answer 201 [''incident_id'' \<mapsto> JStr incident_id,
                         ''status'' \<mapsto> JStr ''created'',
                         ''created_at'' \<mapsto> JStr created_at]), s2)"
    using resp by (simp add: created_body_def)
  from new_item_fields [OF v, of incident_id created_at]
  have fields: "(\<exists>t. d ''title'' = Some (JStr t) \<and> item ''title'' = Some (JStr (strip t)))
       \<and> (\<exists>t. d ''description'' = Some (JStr t) \<and> item ''description'' = Some (JStr (strip t)))
       \<and> (\<exists>t. d ''reported_by'' = Some (JStr t) \<and> item ''reported_by'' = Some (JStr (strip t)))
       \<and> item ''severity'' = d ''severity''
       \<and> item ''tags'' = d ''tags''
       \<and> item ''status'' = Some (JStr ''open'')
       \<and> item ''created_at'' = Some (JStr created_at)"
    unfolding names(3) by auto
  from resp' stored g1 fields show ?thesis by blast
qed

text \<open>The theorem at the example request, on an empty table.\<close>

theorem create_then_get_witness:
  "httpMethod event_create = Some ''POST'' \<and>
   parse_json_body world_ok event_create = Inr (JDict payload_ex) \<and>
   create_validate_payload (JDict payload_ex) = Inr (True, None) \<and>
   payload_ex ''tags'' = Some (JList [JStr ''db'']) \<and>
   create_lambda_handler world_ok (Some event_create) cloud_empty =
     (Inr (answer 201 created_ex),
      \<lparr>table = [(id_ex, item_ex)], calls = [PutItem item_ex, Publish notification_ex]\<rparr>) \<and>
   get_lambda_handler world_ok (Some event_get)
       \<lparr>table = [(id_ex, item_ex)], calls = [PutItem item_ex, Publish notification_ex]\<rparr> =
     (Inr (answer 200 item_ex),
      \<lparr>table = [(id_ex, item_ex)],
       calls = [PutItem item_ex, Publish notification_ex, GetItem id_ex]\<rparr>)"
proof -
  have names: "id_ex = str_uuid (uuid4 world_ok)"
    "''2024-05-01T12:00:00+00:00'' = utcnow_isoformat world_ok"
    "item_ex = new_item id_ex ''2024-05-01T12:00:00+00:00'' payload_ex"
    by (simp_all add: world_ok_def id_ex_def ex_new_item [unfolded id_ex_def])
  have post: "httpMethod event_create = Some ''POST''" by (simp add: event_create_def)
  have get: "httpMethod event_get = Some ''GET''"
    "pathParameters event_get = Some [''id'' \<mapsto> id_ex]"
    "[''id'' \<mapsto> id_ex] ''id'' = Some id_ex"
    by (simp_all add: event_get_def)
  have pub: "publish_incident_created_message world_ok
      (notification_payload id_ex ''2024-05-01T12:00:00+00:00'' item_ex)
      \<lparr>table = [(id_ex, item_ex)], calls = [PutItem item_ex]\<rparr> =
      (Inr (), \<lparr>table = [(id_ex, item_ex)], calls = [PutItem item_ex, Publish notification_ex]\<rparr>)"
    by (simp add: ex_notification ex_publish)
  have tags: "payload_ex ''tags'' = Some (JList [JStr ''db''])" by (simp add: payload_ex_def)
  from create_then_get [OF post ex_parse ex_valid names ex_put pub get ex_get]
  show ?thesis
    by (simp add: post ex_parse ex_valid created_ex_def tags)
qed

text \<open>
  C1 as stated fails twice. The payload passes validation and the store write succeeds,
  but the publish raises, and the handler answers 202, not 201. And with the tags
  \<^verbatim>\<open>[1, 2]\<close> the create handler answers 201 and the record is stored, but the store
  read gives the numbers back as \<^verbatim>\<open>Decimal\<close>s and the get handler on that id raises
  \<^verbatim>\<open>TypeError\<close> while it serialises the body, instead of returning the record.
\<close>

theorem create_201_counterexample:
  "parse_json_body world_sns_down event_create = Inr (JDict payload_ex) \<and>
   create_validate_payload (JDict payload_ex) = Inr (True, None) \<and>
   fst (create_lambda_handler world_sns_down (Some event_create) cloud_empty) =
     Inr (answer 202 (created_ex(''warning'' \<mapsto> JStr ''Incident stored but notification failed'',
                             ''sns_error'' \<mapsto> JStr ''not authorized to publish''))) \<and>
   parse_json_body world_ok event_create_num = Inr (JDict payload_num) \<and>
   create_validate_payload (JDict payload_num) = Inr (True, None) \<and>
   create_lambda_handler world_ok (Some event_create_num) cloud_empty =
     (Inr (answer 201 created_ex), cloud_num) \<and>
   get_lambda_handler world_ok (Some event_get) cloud_num =
     (Inl (TypeError ''Object of type Decimal is not JSON serializable''),
      cloud_num\<lparr>calls := calls cloud_num @ [GetItem id_ex]\<rparr>)"
proof -
  have p: "parse_json_body world_sns_down event_create = Inr (JDict payload_ex)"
    by (simp add: parse_json_body_def world_sns_down_def world_ok_def event_create_def
        loads_ex_def body_defs)
  have post: "httpMethod event_create = Some ''POST''" by (simp add: event_create_def)
  have u: "str_uuid (uuid4 world_sns_down) = id_ex"
    "utcnow_isoformat world_sns_down = ''2024-05-01T12:00:00+00:00''"
    by (simp_all add: world_sns_down_def world_ok_def id_ex_def)
  have put: "put_incident_item world_sns_down item_ex cloud_empty =
      (Inr (), \<lparr>table = [(id_ex, item_ex)], calls = [PutItem item_ex]\<rparr>)"
    by (simp add: put_incident_item_def get_incidents_table_def get_env_var_def table_put_item_def
      aws_def world_sns_down_def world_ok_def env_ok_def cloud_empty_def item_ex_def)
  have pub: "publish_incident_created_message world_sns_down notification_ex
      \<lparr>table = [(id_ex, item_ex)], calls = [PutItem item_ex]\<rparr> =
    (Inl (ClientError ''AuthorizationError'' ''not authorized to publish''),
     \<lparr>table = [(id_ex, item_ex)], calls = [PutItem item_ex, Publish notification_ex]\<rparr>)"
    by (simp add: publish_incident_created_message_def get_env_var_def sns_publish_def
      json_dumps_def ex_plain aws_def world_sns_down_def world_ok_def env_ok_def)
  have a: "fst (create_lambda_handler world_sns_down (Some event_create) cloud_empty) =
     Inr (answer 202 (created_ex(''warning'' \<mapsto> JStr ''Incident stored but notification failed'',
                             ''sns_error'' \<mapsto> JStr ''not authorized to publish'')))"
    by (simp add: create_valid_unfold [OF post p ex_valid] u ex_new_item
        ex_notification put pub created_body_def created_ex_def)
  have putn: "put_incident_item world_ok item_num cloud_empty =
      (Inr (), \<lparr>table = [(id_ex, item_num)], calls = [PutItem item_num]\<rparr>)"
    by (rule ex_put_num) (simp_all add: world_ok_def)
  have pubn: "publish_incident_created_message world_ok notification_ex
      \<lparr>table = [(id_ex, item_num)], calls = [PutItem item_num]\<rparr> = (Inr (), cloud_num)"
    by (simp add: publish_incident_created_message_def get_env_var_def sns_publish_def
      json_dumps_def ex_plain aws_def world_ok_def env_ok_def cloud_num_def)
  have b: "create_lambda_handler world_ok (Some event_create_num) cloud_empty =
     (Inr (answer 201 created_ex), cloud_num)"
    by (simp add: create_valid_unfold [OF ex_num(6) ex_num(2) ex_num(1)] ex_now ex_num(4,5)
        putn pubn created_body_def created_ex_def)
  have c: "get_lambda_handler world_ok (Some event_get) cloud_num =
     (Inl (TypeError ''Object of type Decimal is not JSON serializable''),
      cloud_num\<lparr>calls := calls cloud_num @ [GetItem id_ex]\<rparr>)"
    by (rule ex_get_num) (simp add: cloud_num_def)
  from p ex_valid a ex_num(2) ex_num(1) b c show ?thesis by blast
qed

section \<open>CORS preflight\<close>

text \<open>
  C8. An event whose \<^verbatim>\<open>httpMethod\<close> is \<^verbatim>\<open>OPTIONS\<close> makes each of the create, get,
  list and update handlers answer 204 with the empty JSON object as body, whatever
  the path parameters, the body and the table are, and leaves the table and the log of
  calls to the store and to the publisher as they were.
\<close>

theorem options_preflight:
  assumes "httpMethod ev = Some ''OPTIONS''"
  shows "create_lambda_handler w (Some ev) s =
           (Inr \<lparr>statusCode = 204, headers = cors_headers, body = Map.empty,
                 isBase64Encoded = False\<rparr>, s)
       \<and> get_lambda_handler w (Some ev) s =
           (Inr \<lparr>statusCode = 204, headers = cors_headers, body = Map.empty,
                 isBase64Encoded = False\<rparr>, s)
       \<and> list_lambda_handler w (Some ev) s =
           (Inr \<lparr>statusCode = 204, headers = cors_headers, body = Map.empty,
                 isBase64Encoded = False\<rparr>, s)
       \<and> update_lambda_handler w (Some ev) s =
           (Inr \<lparr>statusCode = 204, headers = cors_headers, body = Map.empty,
                 isBase64Encoded = False\<rparr>, s)"
  using assms
  by (simp add: create_lambda_handler_def get_lambda_handler_def list_lambda_handler_def
      update_lambda_handler_def is_options_request_def or_empty_def)

text \<open>The theorem at a preflight request with a path id and a body that is not JSON, while
  the store is throttled.\<close>

theorem options_preflight_witness:
  "httpMethod event_options = Some ''OPTIONS'' \<and>
   create_lambda_handler world_throttled (Some event_options) cloud_taken =
     (Inr \<lparr>statusCode = 204, headers = cors_headers, body = Map.empty,
           isBase64Encoded = False\<rparr>, cloud_taken) \<and>
   get_lambda_handler world_throttled (Some event_options) cloud_taken =
     (Inr \<lparr>statusCode = 204, headers = cors_headers, body = Map.empty,
           isBase64Encoded = False\<rparr>, cloud_taken) \<and>
   list_lambda_handler world_throttled (Some event_options) cloud_taken =
     (Inr \<lparr>statusCode = 204, headers = cors_headers, body = Map.empty,
           isBase64Encoded = False\<rparr>, cloud_taken) \<and>
   update_lambda_handler world_throttled (Some event_options) cloud_taken =
     (Inr \<lparr>statusCode = 204, headers = cors_headers, body = Map.empty,
           isBase64Encoded = False\<rparr>, cloud_taken)"
proof -
  have h: "httpMethod event_options = Some ''OPTIONS''" by (simp add: event_options_def)
  from options_preflight [OF h, of world_throttled cloud_taken] h show ?thesis by simp
qed

section \<open>A failed notification does not undo the write\<close>




section \<open>What the stored record is made of\<close>

text \<open>
  C10. When the payload of a POST passes validation and the handler stores a record,
  the record's keys are \<open>incident_id\<close>, \<open>title\<close>, \<open>description\<close>, \<open>severity\<close>,
  \<open>reported_by\<close>, \<open>created_at\<close> and \<open>status\<close>, and \<open>tags\<close> exactly when the
  payload has \<open>tags\<close>; its \<open>incident_id\<close>, \<open>status\<close> and \<open>created_at\<close> are the
  generated id, \<open>open\<close> and the clock reading, and any payload with the same
  \<open>title\<close>, \<open>description\<close>, \<open>severity\<close>, \<open>reported_by\<close> and \<open>tags\<close> leads to the
  same record.
\<close>

theorem stored_record_keys:
  assumes post: "httpMethod ev = Some ''POST''"
    and parse: "parse_json_body w ev = Inr (JDict d)"
    and valid: "create_validate_payload (JDict d) = Inr (True, None)"
    and names: "incident_id = str_uuid (uuid4 w)" "created_at = utcnow_isoformat w"
    and run: "create_lambda_handler w (Some ev) s = (out, s')"
    and stored: "table s' \<noteq> table s"
  shows "\<exists>item. table s' = table s @ [(incident_id, item)]
       \<and> dom item = {''incident_id'', ''title'', ''description'', ''severity'', ''reported_by'',
                      ''created_at'', ''status''} \<union> (if ''tags'' \<in> dom d then {''tags''} else {})
       \<and> item ''incident_id'' = Some (JStr incident_id)
       \<and> item ''status'' = Some (JStr ''open'')
       \<and> item ''created_at'' = Some (JStr created_at)
       \<and> (\<forall>d'. d' ''title'' = d ''title'' \<and> d' ''description'' = d ''description'' \<and>
                 d' ''severity'' = d ''severity'' \<and> d' ''reported_by'' = d ''reported_by'' \<and>
                 d' ''tags'' = d ''tags'' \<longrightarrow>
              new_item incident_id created_at d' = item)"
proof -
  let ?item = "new_item incident_id created_at d"
  obtain r s1 where put: "put_incident_item w ?item s = (r, s1)"
    by (cases "put_incident_item w ?item s")
  have ok: "r = Inr ()"
  proof (cases r)
    case (Inl e)
    with put have "table s1 = table s" by (simp add: put_failure)
    moreover have "s' = s1"
      using create_valid_put_fail [OF post parse valid, of s e s1] put Inl run names by simp
    ultimately show ?thesis using stored by simp
  qed simp
  obtain r2 s2 where pub: "publish_incident_created_message w
      (notification_payload incident_id created_at ?item) s1 = (r2, s2)"
    by (cases "publish_incident_created_message w
      (notification_payload incident_id created_at ?item) s1")
  have "s' = s2"
    using create_valid_put_ok [OF post parse valid, of s "()" s1 r2 s2] put ok pub run names
    by simp
  moreover have "table s2 = table s1" using publish_table [OF pub] .
  moreover from put_success [of w ?item s "()" s1] put ok
  have "table s1 = table s @ [(incident_id, ?item)]"
    by (auto simp: new_item_id)
  ultimately have t: "table s' = table s @ [(incident_id, ?item)]" by simp
  from valid have v: "valid_create_payload d" by (simp add: validate_ok_iff)
  have dep: "\<forall>d'. d' ''title'' = d ''title'' \<and> d' ''description'' = d ''description'' \<and>
                 d' ''severity'' = d ''severity'' \<and> d' ''reported_by'' = d ''reported_by'' \<and>
                 d' ''tags'' = d ''tags'' \<longrightarrow>
              new_item incident_id created_at d' = ?item"
  proof (intro allI impI)
    fix d' :: pydict
    assume "d' ''title'' = d ''title'' \<and> d' ''description'' = d ''description'' \<and>
                 d' ''severity'' = d ''severity'' \<and> d' ''reported_by'' = d ''reported_by'' \<and>
                 d' ''tags'' = d ''tags''"
    then show "new_item incident_id created_at d' = ?item"
      by (intro new_item_depends) simp
  qed
  have dm: "dom ?item = {''incident_id'', ''title'', ''description'', ''severity'', ''reported_by'',
                      ''created_at'', ''status''} \<union> (if ''tags'' \<in> dom d then {''tags''} else {})"
    by (cases "d ''tags''") (simp_all add: new_item_dom domIff)
  from new_item_fields [OF v, of incident_id created_at]
  have f: "?item ''incident_id'' = Some (JStr incident_id)"
    "?item ''status'' = Some (JStr ''open'')" "?item ''created_at'' = Some (JStr created_at)"
    by blast+
  from t dm f dep show ?thesis by blast
qed


text \<open>
  The theorem at a payload that also supplies \<open>incident_id\<close>, \<open>status\<close>,
  \<open>created_at\<close>, \<open>updated_at\<close> and \<open>owner\<close>: the stored record is the one of the
  payload without them.
\<close>

theorem stored_record_keys_witness:
  "httpMethod event_create_extra = Some ''POST'' \<and>
   parse_json_body world_ok event_create_extra = Inr (JDict payload_extra) \<and>
   create_validate_payload (JDict payload_extra) = Inr (True, None) \<and>
   create_lambda_handler world_ok (Some event_create_extra) cloud_empty =
     (Inr (answer 201 created_ex),
      \<lparr>table = [(id_ex, item_ex)], calls = [PutItem item_ex, Publish notification_ex]\<rparr>) \<and>
   dom item_ex = {''incident_id'', ''title'', ''description'', ''severity'', ''reported_by'',
                  ''created_at'', ''status'', ''tags''} \<and>
   item_ex ''incident_id'' = Some (JStr id_ex) \<and>
   item_ex ''status'' = Some (JStr ''open'') \<and>
   item_ex ''created_at'' = Some (JStr ''2024-05-01T12:00:00+00:00'') \<and>
   new_item id_ex ''2024-05-01T12:00:00+00:00'' payload_ex = item_ex"
proof -
  have names: "id_ex = str_uuid (uuid4 world_ok)"
    "''2024-05-01T12:00:00+00:00'' = utcnow_isoformat world_ok"
    by (simp_all add: world_ok_def id_ex_def)
  have post: "httpMethod event_create_extra = Some ''POST''"
    by (simp add: event_create_extra_def event_create_def)
  have run: "create_lambda_handler world_ok (Some event_create_extra) cloud_empty =
     (Inr (answer 201 created_ex),
      \<lparr>table = [(id_ex, item_ex)], calls = [PutItem item_ex, Publish notification_ex]\<rparr>)"
    using names
    by (simp add: create_valid_unfold [OF post ex_parse_extra ex_valid_extra]
        names [symmetric] ex_new_item_extra ex_put ex_notification ex_publish created_body_def
        created_ex_def)
  have stored: "table \<lparr>table = [(id_ex, item_ex)],
       calls = [PutItem item_ex, Publish notification_ex]\<rparr> \<noteq> table cloud_empty"
    by (simp add: cloud_empty_def)
  from stored_record_keys [OF post ex_parse_extra ex_valid_extra names run stored]
  obtain item where i: "[(id_ex, item_ex)] = table cloud_empty @ [(id_ex, item)]"
    and d: "dom item = {''incident_id'', ''title'', ''description'', ''severity'', ''reported_by'',
                      ''created_at'', ''status''} \<union>
                      (if ''tags'' \<in> dom payload_extra then {''tags''} else {})"
    and f: "item ''incident_id'' = Some (JStr id_ex)" "item ''status'' = Some (JStr ''open'')"
      "item ''created_at'' = Some (JStr ''2024-05-01T12:00:00+00:00'')"
    and dep: "\<forall>d'. d' ''title'' = payload_extra ''title'' \<and>
                 d' ''description'' = payload_extra ''description'' \<and>
                 d' ''severity'' = payload_extra ''severity'' \<and>
                 d' ''reported_by'' = payload_extra ''reported_by'' \<and>
                 d' ''tags'' = payload_extra ''tags'' \<longrightarrow>
              new_item id_ex ''2024-05-01T12:00:00+00:00'' d' = item"
    by auto
  from i have item: "item = item_ex" by (simp add: cloud_empty_def)
  have agree: "payload_ex ''title'' = payload_extra ''title'' \<and>
                 payload_ex ''description'' = payload_extra ''description'' \<and>
                 payload_ex ''severity'' = payload_extra ''severity'' \<and>
                 payload_ex ''reported_by'' = payload_extra ''reported_by'' \<and>
                 payload_ex ''tags'' = payload_extra ''tags''"
    by (simp add: payload_extra_def)
  have tags: "''tags'' \<in> dom payload_extra"
    by (simp add: payload_extra_def payload_ex_def)
  from dep agree have "new_item id_ex ''2024-05-01T12:00:00+00:00'' payload_ex = item" by blast
  with d f item tags post ex_parse_extra ex_valid_extra run show ?thesis
    by (simp add: insert_commute)
qed

section \<open>A create on an id that is taken\<close>

text \<open>
  C6 (amended). When the generated id is already a key of the table and the client
  raises nothing else, the conditional write fails with a \<open>ClientError\<close> whose code is
  \<^verbatim>\<open>ConditionalCheckFailedException\<close>, the table is unchanged, and the create handler
  answers 500 \<open>InternalServerError\<close> with the message it gives for every store
  \<open>ClientError\<close>; the \<open>detail\<close> is the text of the error.
\<close>

theorem create_collision:
  assumes post: "httpMethod ev = Some ''POST''"
    and parse: "parse_json_body w ev = Inr (JDict d)"
    and valid: "create_validate_payload (JDict d) = Inr (True, None)"
    and names: "incident_id = str_uuid (uuid4 w)" "created_at = utcnow_isoformat w"
      "item = new_item incident_id created_at d"
    and env: "get_incidents_table w = Inr tn"
    and nofault: "aws_fault w (length (calls s)) = None"
    and taken: "map_of (table s) incident_id = Some old"
  shows "put_incident_item w item s =
           (Inl (ClientError ''ConditionalCheckFailedException''
                  (''An error occurred (ConditionalCheckFailedException) when ''
                   @ ''calling the PutItem operation: The conditional request failed'')),
            s\<lparr>calls := calls s @ [PutItem item]\<rparr>)
       \<and> create_lambda_handler w (Some ev) s =
           (Inr (answer 500 [''error'' \<mapsto> JStr ''InternalServerError'',
                         ''message'' \<mapsto> JStr ''Failed to create incident (DynamoDB)'',
                         ''detail'' \<mapsto> JStr
                            (''An error occurred (ConditionalCheckFailedException) when ''
                             @ ''calling the PutItem operation: The conditional request failed'')]),
            s\<lparr>calls := calls s @ [PutItem item]\<rparr>)"
proof -
  have put: "put_incident_item w item s =
           (Inl (ClientError ''ConditionalCheckFailedException''
                  (''An error occurred (ConditionalCheckFailedException) when ''
                   @ ''calling the PutItem operation: The conditional request failed'')),
            s\<lparr>calls := calls s @ [PutItem item]\<rparr>)"
    using env nofault taken
    by (simp add: put_incident_item_def table_put_item_def aws_def names new_item_id)
  with create_valid_unfold [OF post parse valid, of s] names show ?thesis
    by (simp add: Let_def)
qed

text \<open>The theorem at the example request, on a table that holds the id.\<close>

theorem create_collision_witness:
  "httpMethod event_create = Some ''POST'' \<and>
   parse_json_body world_ok event_create = Inr (JDict payload_ex) \<and>
   create_validate_payload (JDict payload_ex) = Inr (True, None) \<and>
   get_incidents_table world_ok = Inr ''incidents'' \<and>
   aws_fault world_ok (length (calls cloud_taken)) = None \<and>
   map_of (table cloud_taken) id_ex = Some (item_ex(''status'' \<mapsto> JStr ''resolved'')) \<and>
   create_lambda_handler world_ok (Some event_create) cloud_taken =
     (Inr (answer 500 [''error'' \<mapsto> JStr ''InternalServerError'',
                   ''message'' \<mapsto> JStr ''Failed to create incident (DynamoDB)'',
                   ''detail'' \<mapsto> JStr
                      (''An error occurred (ConditionalCheckFailedException) when ''
                       @ ''calling the PutItem operation: The conditional request failed'')]),
      \<lparr>table = [(id_ex, item_ex(''status'' \<mapsto> JStr ''resolved''))],
       calls = [PutItem item_ex]\<rparr>)"
proof -
  have names: "id_ex = str_uuid (uuid4 world_ok)"
    "''2024-05-01T12:00:00+00:00'' = utcnow_isoformat world_ok"
    "item_ex = new_item id_ex ''2024-05-01T12:00:00+00:00'' payload_ex"
    by (simp_all add: world_ok_def id_ex_def ex_new_item [unfolded id_ex_def])
  have post: "httpMethod event_create = Some ''POST''" by (simp add: event_create_def)
  have env: "get_incidents_table world_ok = Inr ''incidents''"
    by (simp add: get_incidents_table_def get_env_var_def world_ok_def env_ok_def)
  have nofault: "aws_fault world_ok (length (calls cloud_taken)) = None"
    by (simp add: world_ok_def)
  have taken: "map_of (table cloud_taken) id_ex = Some (item_ex(''status'' \<mapsto> JStr ''resolved''))"
    by (simp add: cloud_taken_def)
  have nofault0: "aws_fault world_ok 0 = None" by (simp add: world_ok_def)
  from create_collision [OF post ex_parse ex_valid names env nofault taken]
  show ?thesis
    by (simp add: post ex_parse ex_valid env nofault0 cloud_taken_def)
qed

text \<open>
  C6 as stated fails: the response to a create on a taken id has the error kind and
  the message of the response to a throttled create; only \<open>detail\<close> differs, and no
  kind \<open>AlreadyExists\<close> appears.
\<close>

theorem create_collision_counterexample:
  "fst (create_lambda_handler world_ok (Some event_create) cloud_taken) =
     Inr (answer 500 [''error'' \<mapsto> JStr ''InternalServerError'',
                  ''message'' \<mapsto> JStr ''Failed to create incident (DynamoDB)'',
                  ''detail'' \<mapsto> JStr
                     (''An error occurred (ConditionalCheckFailedException) when ''
                      @ ''calling the PutItem operation: The conditional request failed'')]) \<and>
   fst (create_lambda_handler world_throttled (Some event_create) cloud_empty) =
     Inr (answer 500 [''error'' \<mapsto> JStr ''InternalServerError'',
                  ''message'' \<mapsto> JStr ''Failed to create incident (DynamoDB)'',
                  ''detail'' \<mapsto> JStr ''rate exceeded''])"
proof -
  have post: "httpMethod event_create = Some ''POST''" by (simp add: event_create_def)
  have u: "str_uuid (uuid4 world_ok) = id_ex"
    "utcnow_isoformat world_ok = ''2024-05-01T12:00:00+00:00''"
    "str_uuid (uuid4 world_throttled) = id_ex"
    "utcnow_isoformat world_throttled = ''2024-05-01T12:00:00+00:00''"
    by (simp_all add: world_throttled_def world_ok_def id_ex_def)
  have p: "parse_json_body world_throttled event_create = Inr (JDict payload_ex)"
    by (simp add: parse_json_body_def world_throttled_def world_ok_def event_create_def
        loads_ex_def body_defs)
  have put1: "put_incident_item world_ok item_ex cloud_taken =
      (Inl (ClientError ''ConditionalCheckFailedException''
             (''An error occurred (ConditionalCheckFailedException) when ''
              @ ''calling the PutItem operation: The conditional request failed'')),
       cloud_taken\<lparr>calls := [PutItem item_ex]\<rparr>)"
    by (simp add: put_incident_item_def get_incidents_table_def get_env_var_def table_put_item_def
      aws_def world_ok_def env_ok_def cloud_taken_def item_ex_def)
  have put2: "put_incident_item world_throttled item_ex cloud_empty =
      (Inl (ClientError ''ProvisionedThroughputExceededException'' ''rate exceeded''),
       cloud_empty\<lparr>calls := [PutItem item_ex]\<rparr>)"
    by (simp add: put_incident_item_def get_incidents_table_def get_env_var_def table_put_item_def
      aws_def world_throttled_def world_ok_def env_ok_def cloud_empty_def)
  show ?thesis
    by (simp add: create_valid_unfold [OF post ex_parse ex_valid]
        create_valid_unfold [OF post p ex_valid] u ex_new_item put1 put2)
qed

section \<open>What a status update changes\<close>

text \<open>
  C2 (amended). For a PATCH or PUT on the id of an existing record with a body whose
  \<open>status\<close> is one of the four allowed values, when the store's update call does not
  raise, the stored record becomes the old one with \<open>status\<close> and \<open>updated_at\<close>
  set, so every other field of it (among them \<open>created_at\<close>, \<open>title\<close>,
  \<open>description\<close>, \<open>severity\<close>, \<open>reported_by\<close>, \<open>tags\<close>) is unchanged, every other
  record of the table is unchanged, and so is the order of the keys. The handler answers
  200 with the full updated record when that record holds no number.
\<close>

theorem update_changes_two_fields:
  assumes meth: "httpMethod ev = Some ''PATCH'' \<or> httpMethod ev = Some ''PUT''"
    and path: "pathParameters ev = Some ps" "ps ''id'' = Some k" "k \<noteq> []"
    and parse: "parse_json_body w ev = Inr (JDict d)"
    and valid: "update_validate_payload (JDict d) = Inr (True, None)"
    and status: "d ''status'' = Some (JStr st)"
    and existing: "map_of (table s) k = Some it"
    and call: "update_incident_status w k st (utcnow_isoformat w) s = (Inr x, s1)"
    and new: "it' = it(''status'' \<mapsto> JStr st, ''updated_at'' \<mapsto> JStr (utcnow_isoformat w))"
  shows "map_of (table s1) k = Some it'
       \<and> (\<forall>a. a \<noteq> ''status'' \<and> a \<noteq> ''updated_at'' \<longrightarrow> it' a = it a)
       \<and> (\<forall>k'. k' \<noteq> k \<longrightarrow> map_of (table s1) k' = map_of (table s) k')
       \<and> map fst (table s1) = map fst (table s)
       \<and> (\<not> has_number (JDict it') \<longrightarrow>
            update_lambda_handler w (Some ev) s =
              (Inr \<lparr>statusCode = 200, headers = cors_headers, body = it',
                    isBase64Encoded = False\<rparr>, s1))"
proof -
  from update_status_result [OF call] existing
  have x: "x = deserialize it'"
    and s1: "table s1 = set_attrs k
        (\<lambda>i. i(''status'' \<mapsto> JStr st, ''updated_at'' \<mapsto> JStr (utcnow_isoformat w))) (table s)"
    unfolding new by auto
  have resp: "update_lambda_handler w (Some ev) s = (build_response 200 (Some x), s1)"
    using update_valid_unfold [OF meth path parse valid status, of s] call by simp
  have frame: "map_of (table s1) k = Some it'
       \<and> (\<forall>a. a \<noteq> ''status'' \<and> a \<noteq> ''updated_at'' \<longrightarrow> it' a = it a)
       \<and> (\<forall>k'. k' \<noteq> k \<longrightarrow> map_of (table s1) k' = map_of (table s) k')
       \<and> map fst (table s1) = map fst (table s)"
    using s1 existing unfolding new by (simp add: map_of_set_attrs map_fst_set_attrs)
  have plain: "\<not> has_number (JDict it') \<longrightarrow>
      update_lambda_handler w (Some ev) s = (Inr (answer 200 it'), s1)"
  proof
    assume p: "\<not> has_number (JDict it')"
    then have "deserialize it' = it'" by (rule deserialize_plain)
    moreover have "\<not> has_decimal (JDict it')" using p has_decimal_number by blast
    ultimately show "update_lambda_handler w (Some ev) s = (Inr (answer 200 it'), s1)"
      using resp x by simp
  qed
  from frame plain show ?thesis by blast
qed

text \<open>The theorem at a PATCH to \<open>resolved\<close> on a table of two records.\<close>

theorem update_changes_two_fields_witness:
  "(httpMethod event_update = Some ''PATCH'' \<or> httpMethod event_update = Some ''PUT'') \<and>
   parse_json_body world_ok event_update = Inr (JDict [''status'' \<mapsto> JStr ''resolved'']) \<and>
   update_validate_payload (JDict [''status'' \<mapsto> JStr ''resolved'']) = Inr (True, None) \<and>
   map_of (table cloud_two) id_ex = Some item_ex \<and>
   update_lambda_handler world_ok (Some event_update) cloud_two =
     (Inr (answer 200 (item_ex(''status'' \<mapsto> JStr ''resolved'',
                           ''updated_at'' \<mapsto> JStr ''2024-05-01T12:00:00+00:00''))),
      cloud_two_resolved) \<and>
   map_of (table cloud_two_resolved) ''7c0e'' = map_of (table cloud_two) ''7c0e'' \<and>
   map fst (table cloud_two_resolved) = map fst (table cloud_two)"
proof -
  have meth: "httpMethod event_update = Some ''PATCH'' \<or> httpMethod event_update = Some ''PUT''"
    by (simp add: event_update_def)
  have path: "pathParameters event_update = Some [''id'' \<mapsto> id_ex]"
    "[''id'' \<mapsto> id_ex] ''id'' = Some id_ex" "id_ex \<noteq> []"
    by (simp_all add: event_update_def id_ex_def str_uuid_nonempty)
  have status: "[''status'' \<mapsto> JStr ''resolved''] ''status'' = Some (JStr ''resolved'')"
    by simp
  have existing: "map_of (table cloud_two) id_ex = Some item_ex"
    using id_ex_other by (simp add: cloud_two_def)
  have now: "utcnow_isoformat world_ok = ''2024-05-01T12:00:00+00:00''"
    by (simp add: world_ok_def)
  have call: "update_incident_status world_ok id_ex ''resolved'' (utcnow_isoformat world_ok)
      cloud_two = (Inr (item_ex(''status'' \<mapsto> JStr ''resolved'',
                   ''updated_at'' \<mapsto> JStr ''2024-05-01T12:00:00+00:00'')), cloud_two_resolved)"
    by (simp add: now ex_update)
  have plain: "\<not> has_number (JDict (item_ex(''status'' \<mapsto> JStr ''resolved'',
      ''updated_at'' \<mapsto> JStr ''2024-05-01T12:00:00+00:00'')))"
    using ex_plain(1) by simp
  from update_changes_two_fields [OF meth path ex_parse_update ex_valid_update status existing call
      refl] id_ex_other plain
  show ?thesis
    by (simp add: meth ex_parse_update ex_valid_update existing now)
qed

text \<open>
  C2 as stated fails twice. The record exists and the status is allowed, but the store
  call is throttled, and the handler answers 500, not 200. And on a record whose tags are
  \<^verbatim>\<open>[1, 2]\<close> the store makes the update and returns the numbers as \<^verbatim>\<open>Decimal\<close>s,
  and the handler raises \<^verbatim>\<open>TypeError\<close> while it serialises the body, instead of
  answering 200.
\<close>

theorem update_200_counterexample:
  "parse_json_body world_throttled event_update = Inr (JDict [''status'' \<mapsto> JStr ''resolved'']) \<and>
   update_validate_payload (JDict [''status'' \<mapsto> JStr ''resolved'']) = Inr (True, None) \<and>
   map_of (table cloud_taken) id_ex = Some (item_ex(''status'' \<mapsto> JStr ''resolved'')) \<and>
   update_lambda_handler world_throttled (Some event_update) cloud_taken =
     (Inr (answer 500 [''error'' \<mapsto> JStr ''InternalServerError'',
                   ''message'' \<mapsto> JStr ''Failed to update incident status'',
                   ''detail'' \<mapsto> JStr ''rate exceeded'']),
      cloud_taken\<lparr>calls := [UpdateItem id_ex ''resolved'' ''2024-05-01T12:00:00+00:00'']\<rparr>) \<and>
   parse_json_body world_ok event_update = Inr (JDict [''status'' \<mapsto> JStr ''resolved'']) \<and>
   map_of (table cloud_num) id_ex = Some item_num \<and>
   update_lambda_handler world_ok (Some event_update) cloud_num =
     (Inl (TypeError ''Object of type Decimal is not JSON serializable''),
      \<lparr>table = [(id_ex, item_num(''status'' \<mapsto> JStr ''resolved'',
                                ''updated_at'' \<mapsto> JStr ''2024-05-01T12:00:00+00:00''))],
       calls = [PutItem item_num, Publish notification_ex,
                UpdateItem id_ex ''resolved'' ''2024-05-01T12:00:00+00:00'']\<rparr>)"
proof -
  have meth: "httpMethod event_update = Some ''PATCH'' \<or> httpMethod event_update = Some ''PUT''"
    by (simp add: event_update_def)
  have path: "pathParameters event_update = Some [''id'' \<mapsto> id_ex]"
    "[''id'' \<mapsto> id_ex] ''id'' = Some id_ex" "id_ex \<noteq> []"
    by (simp_all add: event_update_def id_ex_def str_uuid_nonempty)
  have status: "[''status'' \<mapsto> JStr ''resolved''] ''status'' = Some (JStr ''resolved'')"
    by simp
  have p: "parse_json_body world_throttled event_update =
      Inr (JDict [''status'' \<mapsto> JStr ''resolved''])"
    by (simp add: parse_json_body_def world_throttled_def world_ok_def event_update_def
        loads_ex_def body_defs)
  have call: "update_incident_status world_throttled id_ex ''resolved''
      (utcnow_isoformat world_throttled) cloud_taken =
      (Inl (ClientError ''ProvisionedThroughputExceededException'' ''rate exceeded''),
       cloud_taken\<lparr>calls := [UpdateItem id_ex ''resolved'' ''2024-05-01T12:00:00+00:00'']\<rparr>)"
    by (simp add: update_incident_status_def get_incidents_table_def get_env_var_def
      table_update_item_def aws_def world_throttled_def world_ok_def env_ok_def cloud_taken_def)
  have a: "update_lambda_handler world_throttled (Some event_update) cloud_taken =
     (Inr (answer 500 [''error'' \<mapsto> JStr ''InternalServerError'',
                   ''message'' \<mapsto> JStr ''Failed to update incident status'',
                   ''detail'' \<mapsto> JStr ''rate exceeded'']),
      cloud_taken\<lparr>calls := [UpdateItem id_ex ''resolved'' ''2024-05-01T12:00:00+00:00'']\<rparr>)"
    by (simp add: update_valid_unfold [OF meth path p ex_valid_update status] call)
  have t: "map_of (table cloud_taken) id_ex = Some (item_ex(''status'' \<mapsto> JStr ''resolved''))"
    by (simp add: cloud_taken_def)
  let ?new = "item_num(''status'' \<mapsto> JStr ''resolved'',
      ''updated_at'' \<mapsto> JStr ''2024-05-01T12:00:00+00:00'')"
  let ?s1 = "\<lparr>table = [(id_ex, ?new)],
       calls = [PutItem item_num, Publish notification_ex,
                UpdateItem id_ex ''resolved'' ''2024-05-01T12:00:00+00:00'']\<rparr>"
  have calln: "update_incident_status world_ok id_ex ''resolved''
      (utcnow_isoformat world_ok) cloud_num = (Inr (deserialize ?new), ?s1)"
    by (simp add: update_incident_status_def ex_env table_update_item_def aws_def ex_fault
        ex_now cloud_num_def Let_def)
  have "has_number (JList [JInt 1, JInt 2])"
    by (rule has_number.intros(4) [of "JInt 1"]) simp_all
  then have "has_number (JDict ?new)"
    by (rule has_number.intros(5) [where k = "''tags''", rotated]) (simp add: item_num_def)
  then have dec: "has_decimal (JDict (deserialize ?new))" by (simp add: has_decimal_deserialize)
  have b: "update_lambda_handler world_ok (Some event_update) cloud_num =
     (Inl (TypeError ''Object of type Decimal is not JSON serializable''), ?s1)"
    by (simp add: update_valid_unfold [OF meth path ex_parse_update ex_valid_update status] calln
        build_response_decimal [OF dec])
  have tn: "map_of (table cloud_num) id_ex = Some item_num" by (simp add: cloud_num_def)
  from p ex_valid_update t a ex_parse_update tn b show ?thesis by blast
qed

section \<open>Listing follows the pagination to its end\<close>

text \<open>
  C4 (amended). For every table, whatever the sizes of the pages the store cuts it into
  (empty pages included), when the table name is configured and no scan call raises,
  \<open>scan_incidents\<close> returns every record of the table exactly once, in the store's
  order (the concatenation of all pages), with the numbers of the records as
  \<^verbatim>\<open>Decimal\<close>s, and leaves the table as it was. The list handler answers 200 with
  \<open>items\<close> holding these records when no record of the table holds a number, and the
  answer does not depend on the page sizes.
\<close>

theorem list_returns_every_record:
  assumes "httpMethod ev = Some ''GET''"
    and "get_incidents_table w = Inr tn"
    and "\<forall>n\<ge>length (calls s). aws_fault w n = None"
  shows "fst (scan_incidents w s) = Inr (map deserialize (map snd (table s)))
       \<and> table (snd (scan_incidents w s)) = table s
       \<and> table (snd (list_lambda_handler w (Some ev) s)) = table s
       \<and> ((\<forall>it \<in> set (map snd (table s)). \<not> has_number (JDict it)) \<longrightarrow>
            fst (list_lambda_handler w (Some ev) s) =
              Inr \<lparr>statusCode = 200, headers = cors_headers,
                   body = [''items'' \<mapsto> JList (map JDict (map snd (table s)))],
                   isBase64Encoded = False\<rparr>)"
proof -
  note l = list_all [OF assms]
  have a: "fst (scan_incidents w s) = Inr (map deserialize (map snd (table s)))"
    using l(1) by simp
  have c: "table (snd (list_lambda_handler w (Some ev) s)) = table s"
    unfolding l(3) using l(2) by simp
  have plain: "(\<forall>it \<in> set (map snd (table s)). \<not> has_number (JDict it)) \<longrightarrow>
      fst (list_lambda_handler w (Some ev) s) =
        Inr (answer 200 [''items'' \<mapsto> JList (map JDict (map snd (table s)))])"
  proof
    assume p: "\<forall>it \<in> set (map snd (table s)). \<not> has_number (JDict it)"
    note i = items_plain [OF p]
    show "fst (list_lambda_handler w (Some ev) s) =
        Inr (answer 200 [''items'' \<mapsto> JList (map JDict (map snd (table s)))])"
      unfolding l(3) i(1) using i(2) by simp
  qed
  from a l(2) c plain show ?thesis by blast
qed

text \<open>
  The theorem on a table of two records, cut into a page of one record and the rest,
  and into an empty page, a page of two records and an empty last page.
\<close>

theorem list_returns_every_record_witness:
  "httpMethod event_list = Some ''GET'' \<and>
   get_incidents_table world_ok = Inr ''incidents'' \<and>
   aws_fault world_ok = (\<lambda>n. None) \<and> aws_fault world_wide = (\<lambda>n. None) \<and>
   page_sizes world_ok = [1] \<and> page_sizes world_wide = [0, 2] \<and>
   map snd (table cloud_two) = [item_other, item_ex] \<and>
   fst (list_lambda_handler world_ok (Some event_list) cloud_two) =
     Inr (answer 200 [''items'' \<mapsto> JList [JDict item_other, JDict item_ex]]) \<and>
   fst (list_lambda_handler world_wide (Some event_list) cloud_two) =
     Inr (answer 200 [''items'' \<mapsto> JList [JDict item_other, JDict item_ex]]) \<and>
   table (snd (list_lambda_handler world_ok (Some event_list) cloud_two)) = table cloud_two"
proof -
  have g: "httpMethod event_list = Some ''GET''" by (simp add: event_list_def)
  have nf: "\<forall>n\<ge>length (calls cloud_two). aws_fault world_ok n = None"
    "\<forall>n\<ge>length (calls cloud_two). aws_fault world_wide n = None"
    by (simp_all add: world_ok_def world_wide_def)
  have pg: "page_sizes world_ok = [1]" "page_sizes world_wide = [0, 2]"
    by (simp_all add: world_ok_def world_wide_def)
  have t: "map snd (table cloud_two) = [item_other, item_ex]" by (simp add: cloud_two_def)
  have af: "aws_fault world_ok = (\<lambda>n. None)" "aws_fault world_wide = (\<lambda>n. None)"
    by (simp_all add: world_ok_def world_wide_def)
  have plain: "\<forall>it \<in> set (map snd (table cloud_two)). \<not> has_number (JDict it)"
    unfolding t using ex_plain(1,2) by simp
  from list_returns_every_record [OF g ex_env(1) nf(1)]
    list_returns_every_record [OF g ex_env(2) nf(2)] plain
  show ?thesis
    by (simp add: g ex_env(1) af pg t)
qed

text \<open>
  C4 as stated fails twice. On that table, a throttled scan makes the handler answer
  500. And on a table whose record has the tags \<^verbatim>\<open>[1, 2]\<close>, with no call raising, the
  scan gives the numbers back as \<^verbatim>\<open>Decimal\<close>s and the handler raises \<^verbatim>\<open>TypeError\<close>
  while it serialises the body, instead of answering 200.
\<close>

theorem list_200_counterexample:
  "list_lambda_handler world_throttled (Some event_list) cloud_two =
     (Inr (answer 500 [''error'' \<mapsto> JStr ''InternalServerError'',
                   ''message'' \<mapsto> JStr ''Failed to list incidents'',
                   ''detail'' \<mapsto> JStr ''rate exceeded'']),
      cloud_two\<lparr>calls := [Scan None]\<rparr>) \<and>
   table cloud_num = [(id_ex, item_num)] \<and>
   aws_fault world_ok 2 = None \<and> aws_fault world_ok 3 = None \<and>
   fst (list_lambda_handler world_ok (Some event_list) cloud_num) =
     Inl (TypeError ''Object of type Decimal is not JSON serializable'')"
proof -
  have g: "httpMethod event_list = Some ''GET''" by (simp add: event_list_def)
  have ts: "table_scan world_throttled None cloud_two =
      (Inl (ClientError ''ProvisionedThroughputExceededException'' ''rate exceeded''),
       cloud_two\<lparr>calls := [Scan None]\<rparr>)"
    by (simp add: table_scan_def aws_def world_throttled_def cloud_two_def)
  have "scan_loop world_throttled None [] cloud_two =
      (Inl (ClientError ''ProvisionedThroughputExceededException'' ''rate exceeded''),
       cloud_two\<lparr>calls := [Scan None]\<rparr>)"
    by (simp add: scan_loop.simps [of world_throttled None "[]" cloud_two] ts)
  with g ex_env(3) have a: "list_lambda_handler world_throttled (Some event_list) cloud_two =
     (Inr (answer 500 [''error'' \<mapsto> JStr ''InternalServerError'',
                   ''message'' \<mapsto> JStr ''Failed to list incidents'',
                   ''detail'' \<mapsto> JStr ''rate exceeded'']),
      cloud_two\<lparr>calls := [Scan None]\<rparr>)"
    by (simp add: list_lambda_handler_def is_options_request_def or_empty_def scan_incidents_def)
  have t: "table cloud_num = [(id_ex, item_num)]" by (simp add: cloud_num_def)
  have af: "aws_fault world_ok = (\<lambda>n. None)" by (simp add: world_ok_def)
  have nf: "\<forall>n\<ge>length (calls cloud_num). aws_fault world_ok n = None" by (simp add: af)
  have "item_num \<in> set (map snd (table cloud_num))" by (simp add: t)
  from items_decimal [OF this ex_num(7)]
  have b: "fst (list_lambda_handler world_ok (Some event_list) cloud_num) =
     Inl (TypeError ''Object of type Decimal is not JSON serializable'')"
    unfolding list_all(3) [OF g ex_env(1) nf] by (simp add: build_response_decimal)
  from a t b show ?thesis by (simp add: af)
qed

section \<open>Failures of the store\<close>

text \<open>
  C3 (amended). For a PATCH or PUT with a path id and a valid body: when the id is not
  in the table, the table name is configured and the store call raises nothing else,
  the update handler answers 404 \<open>NotFound\<close> and the table is unchanged; when the
  store call raises a \<open>ClientError\<close> other than the failed condition, it answers 500
  \<open>InternalServerError\<close> with the error's text as \<open>detail\<close>. The create, get and list
  handlers answer 500 \<open>InternalServerError\<close> with \<open>detail\<close> for every \<open>ClientError\<close>
  of their store call. A failure of the store call that is not a \<open>ClientError\<close> is not
  answered by any of the four handlers: it leaves the handler as the exception it is.
\<close>

theorem store_failures:
  "((httpMethod evu = Some ''PATCH'' \<or> httpMethod evu = Some ''PUT'') \<and>
    pathParameters evu = Some ps \<and> ps ''id'' = Some k \<and> k \<noteq> [] \<and>
    parse_json_body w evu = Inr (JDict d) \<and>
    update_validate_payload (JDict d) = Inr (True, None) \<and> d ''status'' = Some (JStr st) \<longrightarrow>
      (map_of (table s) k = None \<and> get_incidents_table w = Inr tn \<and>
       aws_fault w (length (calls s)) = None \<longrightarrow>
         update_lambda_handler w (Some evu) s =
           (Inr (answer 404 [''error'' \<mapsto> JStr ''NotFound'',
                         ''message'' \<mapsto> JStr (''Incident '' @ [CHR 0x27] @ k @ [CHR 0x27]
                                              @ '' not found'')]),
            s\<lparr>calls := calls s @ [UpdateItem k st (utcnow_isoformat w)]\<rparr>)) \<and>
      (update_incident_status w k st (utcnow_isoformat w) s = (Inl (ClientError c m), s1) \<and>
       c \<noteq> ''ConditionalCheckFailedException'' \<longrightarrow>
         update_lambda_handler w (Some evu) s =
           (Inr (answer 500 [''error'' \<mapsto> JStr ''InternalServerError'',
                         ''message'' \<mapsto> JStr ''Failed to update incident status'',
                         ''detail'' \<mapsto> JStr m]), s1)) \<and>
      (update_incident_status w k st (utcnow_isoformat w) s = (Inl e, s1) \<and>
       (\<forall>c m. e \<noteq> ClientError c m) \<longrightarrow>
         update_lambda_handler w (Some evu) s = (Inl e, s1)))
   \<and> (httpMethod evc = Some ''POST'' \<and> parse_json_body w evc = Inr (JDict dc) \<and>
      create_validate_payload (JDict dc) = Inr (True, None) \<and>
      put_incident_item w (new_item (str_uuid (uuid4 w)) (utcnow_isoformat w) dc) s =
        (Inl (ClientError c m), s2) \<longrightarrow>
         create_lambda_handler w (Some evc) s =
           (Inr (answer 500 [''error'' \<mapsto> JStr ''InternalServerError'',
                         ''message'' \<mapsto> JStr ''Failed to create incident (DynamoDB)'',
                         ''detail'' \<mapsto> JStr m]), s2))
   \<and> (httpMethod evg = Some ''GET'' \<and> pathParameters evg = Some ps \<and> ps ''id'' = Some k \<and>
      k \<noteq> [] \<and> get_incident_item w k s = (Inl (ClientError c m), s3) \<longrightarrow>
         get_lambda_handler w (Some evg) s =
           (Inr (answer 500 [''error'' \<mapsto> JStr ''InternalServerError'',
                         ''message'' \<mapsto> JStr ''Failed to fetch incident'',
                         ''detail'' \<mapsto> JStr m]), s3))
   \<and> (httpMethod evl = Some ''GET'' \<and> scan_incidents w s = (Inl (ClientError c m), s4) \<longrightarrow>
         list_lambda_handler w (Some evl) s =
           (Inr (answer 500 [''error'' \<mapsto> JStr ''InternalServerError'',
                         ''message'' \<mapsto> JStr ''Failed to list incidents'',
                         ''detail'' \<mapsto> JStr m]), s4))
   \<and> (httpMethod evc = Some ''POST'' \<and> parse_json_body w evc = Inr (JDict dc) \<and>
      create_validate_payload (JDict dc) = Inr (True, None) \<and>
      put_incident_item w (new_item (str_uuid (uuid4 w)) (utcnow_isoformat w) dc) s =
        (Inl e, s2) \<and> (\<forall>c m. e \<noteq> ClientError c m) \<longrightarrow>
         create_lambda_handler w (Some evc) s = (Inl e, s2))
   \<and> (httpMethod evg = Some ''GET'' \<and> pathParameters evg = Some ps \<and> ps ''id'' = Some k \<and>
      k \<noteq> [] \<and> get_incident_item w k s = (Inl e, s3) \<and>
      (\<forall>c m. e \<noteq> ClientError c m) \<longrightarrow>
         get_lambda_handler w (Some evg) s = (Inl e, s3))
   \<and> (httpMethod evl = Some ''GET'' \<and> scan_incidents w s = (Inl e, s4) \<and>
      (\<forall>c m. e \<noteq> ClientError c m) \<longrightarrow>
         list_lambda_handler w (Some evl) s = (Inl e, s4))"
proof (intro conjI impI)
  assume v: "(httpMethod evu = Some ''PATCH'' \<or> httpMethod evu = Some ''PUT'') \<and>
    pathParameters evu = Some ps \<and> ps ''id'' = Some k \<and> k \<noteq> [] \<and>
    parse_json_body w evu = Inr (JDict d) \<and>
    update_validate_payload (JDict d) = Inr (True, None) \<and> d ''status'' = Some (JStr st)"
  then have h: "httpMethod evu = Some ''PATCH'' \<or> httpMethod evu = Some ''PUT''"
    "pathParameters evu = Some ps" "ps ''id'' = Some k" "k \<noteq> []"
    "parse_json_body w evu = Inr (JDict d)"
    "update_validate_payload (JDict d) = Inr (True, None)" "d ''status'' = Some (JStr st)"
    by simp_all
  note u = update_valid_unfold [OF h, of s]
  {
    assume "map_of (table s) k = None \<and> get_incidents_table w = Inr tn \<and>
       aws_fault w (length (calls s)) = None"
    then have "update_incident_status w k st (utcnow_isoformat w) s =
     (Inl (ClientError ''ConditionalCheckFailedException''
            (''An error occurred (ConditionalCheckFailedException) when ''
             @ ''calling the UpdateItem operation: The conditional request failed'')),
      s\<lparr>calls := calls s @ [UpdateItem k st (utcnow_isoformat w)]\<rparr>)"
      by (simp add: update_missing [of s k w tn])
    then show "update_lambda_handler w (Some evu) s =
           (Inr (answer 404 [''error'' \<mapsto> JStr ''NotFound'',
                         ''message'' \<mapsto> JStr (''Incident '' @ [CHR 0x27] @ k @ [CHR 0x27]
                                              @ '' not found'')]),
            s\<lparr>calls := calls s @ [UpdateItem k st (utcnow_isoformat w)]\<rparr>)"
      unfolding u by (simp add: not_found_body_def)
  }
  {
    assume "update_incident_status w k st (utcnow_isoformat w) s = (Inl (ClientError c m), s1) \<and>
       c \<noteq> ''ConditionalCheckFailedException''"
    then show "update_lambda_handler w (Some evu) s =
           (Inr (answer 500 [''error'' \<mapsto> JStr ''InternalServerError'',
                         ''message'' \<mapsto> JStr ''Failed to update incident status'',
                         ''detail'' \<mapsto> JStr m]), s1)"
      unfolding u by simp
  }
  {
    assume "update_incident_status w k st (utcnow_isoformat w) s = (Inl e, s1) \<and>
       (\<forall>c m. e \<noteq> ClientError c m)"
    then show "update_lambda_handler w (Some evu) s = (Inl e, s1)"
      unfolding u by (cases e) simp_all
  }
next
  assume "httpMethod evc = Some ''POST'' \<and> parse_json_body w evc = Inr (JDict dc) \<and>
      create_validate_payload (JDict dc) = Inr (True, None) \<and>
      put_incident_item w (new_item (str_uuid (uuid4 w)) (utcnow_isoformat w) dc) s =
        (Inl (ClientError c m), s2)"
  then show "create_lambda_handler w (Some evc) s =
           (Inr (answer 500 [''error'' \<mapsto> JStr ''InternalServerError'',
                         ''message'' \<mapsto> JStr ''Failed to create incident (DynamoDB)'',
                         ''detail'' \<mapsto> JStr m]), s2)"
    by (simp add: create_valid_unfold Let_def)
next
  assume "httpMethod evg = Some ''GET'' \<and> pathParameters evg = Some ps \<and> ps ''id'' = Some k \<and>
      k \<noteq> [] \<and> get_incident_item w k s = (Inl (ClientError c m), s3)"
  then show "get_lambda_handler w (Some evg) s =
           (Inr (answer 500 [''error'' \<mapsto> JStr ''InternalServerError'',
                         ''message'' \<mapsto> JStr ''Failed to fetch incident'',
                         ''detail'' \<mapsto> JStr m]), s3)"
    by (simp add: get_unfold [of evg ps k])
next
  assume "httpMethod evl = Some ''GET'' \<and> scan_incidents w s = (Inl (ClientError c m), s4)"
  then show "list_lambda_handler w (Some evl) s =
           (Inr (answer 500 [''error'' \<mapsto> JStr ''InternalServerError'',
                         ''message'' \<mapsto> JStr ''Failed to list incidents'',
                         ''detail'' \<mapsto> JStr m]), s4)"
    by (simp add: list_unfold)
next
  assume "httpMethod evc = Some ''POST'' \<and> parse_json_body w evc = Inr (JDict dc) \<and>
      create_validate_payload (JDict dc) = Inr (True, None) \<and>
      put_incident_item w (new_item (str_uuid (uuid4 w)) (utcnow_isoformat w) dc) s =
        (Inl e, s2) \<and> (\<forall>c m. e \<noteq> ClientError c m)"
  then show "create_lambda_handler w (Some evc) s = (Inl e, s2)"
    by (cases e) (simp_all add: create_valid_unfold Let_def)
next
  assume "httpMethod evg = Some ''GET'' \<and> pathParameters evg = Some ps \<and> ps ''id'' = Some k \<and>
      k \<noteq> [] \<and> get_incident_item w k s = (Inl e, s3) \<and>
      (\<forall>c m. e \<noteq> ClientError c m)"
  then show "get_lambda_handler w (Some evg) s = (Inl e, s3)"
    by (cases e) (simp_all add: get_unfold [of evg ps k])
next
  assume "httpMethod evl = Some ''GET'' \<and> scan_incidents w s = (Inl e, s4) \<and>
      (\<forall>c m. e \<noteq> ClientError c m)"
  then show "list_lambda_handler w (Some evl) s = (Inl e, s4)"
    by (cases e) (simp_all add: list_unfold)
qed


text \<open>
  The theorem at an update of an id that an empty table does not hold, at the four
  operations while the store is throttled, and at the four operations when the table
  name is not configured.
\<close>

theorem store_failures_witness:
  "(httpMethod event_update = Some ''PATCH'' \<or> httpMethod event_update = Some ''PUT'') \<and>
   parse_json_body world_ok event_update = Inr (JDict [''status'' \<mapsto> JStr ''resolved'']) \<and>
   update_validate_payload (JDict [''status'' \<mapsto> JStr ''resolved'']) = Inr (True, None) \<and>
   map_of (table cloud_empty) id_ex = None \<and>
   get_incidents_table world_ok = Inr ''incidents'' \<and>
   aws_fault world_ok (length (calls cloud_empty)) = None \<and>
   update_lambda_handler world_ok (Some event_update) cloud_empty =
     (Inr (answer 404 [''error'' \<mapsto> JStr ''NotFound'',
                   ''message'' \<mapsto> JStr (''Incident '' @ [CHR 0x27] @ id_ex @ [CHR 0x27]
                                        @ '' not found'')]),
      cloud_empty\<lparr>calls := [UpdateItem id_ex ''resolved'' ''2024-05-01T12:00:00+00:00'']\<rparr>) \<and>
   update_lambda_handler world_throttled (Some event_update) cloud_taken =
     (Inr (answer 500 [''error'' \<mapsto> JStr ''InternalServerError'',
                   ''message'' \<mapsto> JStr ''Failed to update incident status'',
                   ''detail'' \<mapsto> JStr ''rate exceeded'']),
      cloud_taken\<lparr>calls := [UpdateItem id_ex ''resolved'' ''2024-05-01T12:00:00+00:00'']\<rparr>) \<and>
   create_lambda_handler world_throttled (Some event_create) cloud_taken =
     (Inr (answer 500 [''error'' \<mapsto> JStr ''InternalServerError'',
                   ''message'' \<mapsto> JStr ''Failed to create incident (DynamoDB)'',
                   ''detail'' \<mapsto> JStr ''rate exceeded'']),
      cloud_taken\<lparr>calls := [PutItem item_ex]\<rparr>) \<and>
   get_lambda_handler world_throttled (Some event_get) cloud_taken =
     (Inr (answer 500 [''error'' \<mapsto> JStr ''InternalServerError'',
                   ''message'' \<mapsto> JStr ''Failed to fetch incident'',
                   ''detail'' \<mapsto> JStr ''rate exceeded'']),
      cloud_taken\<lparr>calls := [GetItem id_ex]\<rparr>) \<and>
   list_lambda_handler world_throttled (Some event_list) cloud_taken =
     (Inr (answer 500 [''error'' \<mapsto> JStr ''InternalServerError'',
                   ''message'' \<mapsto> JStr ''Failed to list incidents'',
                   ''detail'' \<mapsto> JStr ''rate exceeded'']),
      cloud_taken\<lparr>calls := [Scan None]\<rparr>) \<and>
   update_lambda_handler world_noenv (Some event_update) cloud_taken =
     (Inl (RuntimeError ''Missing required environment variable: INCIDENTS_TABLE_NAME''),
      cloud_taken) \<and>
   create_lambda_handler world_noenv (Some event_create) cloud_taken =
     (Inl (RuntimeError ''Missing required environment variable: INCIDENTS_TABLE_NAME''),
      cloud_taken) \<and>
   get_lambda_handler world_noenv (Some event_get) cloud_taken =
     (Inl (RuntimeError ''Missing required environment variable: INCIDENTS_TABLE_NAME''),
      cloud_taken) \<and>
   list_lambda_handler world_noenv (Some event_list) cloud_taken =
     (Inl (RuntimeError ''Missing required environment variable: INCIDENTS_TABLE_NAME''),
      cloud_taken)"
proof -
  have absent: "map_of (table cloud_empty) id_ex = None"
    "aws_fault world_ok (length (calls cloud_empty)) = None" "calls cloud_empty = []"
    "calls cloud_taken = []"
    by (simp_all add: cloud_empty_def cloud_taken_def world_ok_def)
  have ev: "httpMethod event_create = Some ''POST''" "httpMethod event_get = Some ''GET''"
    "pathParameters event_get = Some [''id'' \<mapsto> id_ex]" "httpMethod event_list = Some ''GET''"
    by (simp_all add: event_create_def event_get_def event_list_def)
  have code: "''ProvisionedThroughputExceededException'' \<noteq> ''ConditionalCheckFailedException''"
    by simp
  from store_failures [where evu = event_update and ps = "[''id'' \<mapsto> id_ex]" and k = id_ex
      and w = world_ok and d = "[''status'' \<mapsto> JStr ''resolved'']" and st = "''resolved''"
      and s = cloud_empty and tn = "''incidents''"
      and c = "''x''" and m = "''x''" and e = "ValueError ''x''" and ?s1.0 = cloud_empty
      and evc = event_options and dc = Map.empty and ?s2.0 = cloud_empty
      and evg = event_options and ?s3.0 = cloud_empty
      and evl = event_options and ?s4.0 = cloud_empty]
  have one: "update_lambda_handler world_ok (Some event_update) cloud_empty =
     (Inr (answer 404 [''error'' \<mapsto> JStr ''NotFound'',
                   ''message'' \<mapsto> JStr (''Incident '' @ [CHR 0x27] @ id_ex @ [CHR 0x27]
                                        @ '' not found'')]),
      cloud_empty\<lparr>calls := [UpdateItem id_ex ''resolved'' ''2024-05-01T12:00:00+00:00'']\<rparr>)"
    by (simp add: ex_update_event ex_parse_update ex_valid_update absent ex_env ex_now ex_fault)
  from store_failures [where evu = event_update and ps = "[''id'' \<mapsto> id_ex]" and k = id_ex
      and w = world_throttled and d = "[''status'' \<mapsto> JStr ''resolved'']" and st = "''resolved''"
      and s = cloud_taken and tn = "''incidents''"
      and c = "''ProvisionedThroughputExceededException''" and m = "''rate exceeded''"
      and e = "ValueError ''x''"
      and ?s1.0 = "cloud_taken\<lparr>calls := [UpdateItem id_ex ''resolved'' ''2024-05-01T12:00:00+00:00'']\<rparr>"
      and evc = event_create and dc = payload_ex
      and ?s2.0 = "cloud_taken\<lparr>calls := [PutItem item_ex]\<rparr>"
      and evg = event_get and ?s3.0 = "cloud_taken\<lparr>calls := [GetItem id_ex]\<rparr>"
      and evl = event_list and ?s4.0 = "cloud_taken\<lparr>calls := [Scan None]\<rparr>"]
  have two: "update_lambda_handler world_throttled (Some event_update) cloud_taken =
     (Inr (answer 500 [''error'' \<mapsto> JStr ''InternalServerError'',
                   ''message'' \<mapsto> JStr ''Failed to update incident status'',
                   ''detail'' \<mapsto> JStr ''rate exceeded'']),
      cloud_taken\<lparr>calls := [UpdateItem id_ex ''resolved'' ''2024-05-01T12:00:00+00:00'']\<rparr>) \<and>
   create_lambda_handler world_throttled (Some event_create) cloud_taken =
     (Inr (answer 500 [''error'' \<mapsto> JStr ''InternalServerError'',
                   ''message'' \<mapsto> JStr ''Failed to create incident (DynamoDB)'',
                   ''detail'' \<mapsto> JStr ''rate exceeded'']),
      cloud_taken\<lparr>calls := [PutItem item_ex]\<rparr>) \<and>
   get_lambda_handler world_throttled (Some event_get) cloud_taken =
     (Inr (answer 500 [''error'' \<mapsto> JStr ''InternalServerError'',
                   ''message'' \<mapsto> JStr ''Failed to fetch incident'',
                   ''detail'' \<mapsto> JStr ''rate exceeded'']),
      cloud_taken\<lparr>calls := [GetItem id_ex]\<rparr>) \<and>
   list_lambda_handler world_throttled (Some event_list) cloud_taken =
     (Inr (answer 500 [''error'' \<mapsto> JStr ''InternalServerError'',
                   ''message'' \<mapsto> JStr ''Failed to list incidents'',
                   ''detail'' \<mapsto> JStr ''rate exceeded'']),
      cloud_taken\<lparr>calls := [Scan None]\<rparr>)"
    by (simp add: ex_update_event ex_parse_throttled ex_valid_update ex_valid absent ex_env ex_now
        ev ex_throttled_calls ex_new_item)
  from store_failures [where evu = event_update and ps = "[''id'' \<mapsto> id_ex]" and k = id_ex
      and w = world_noenv and d = "[''status'' \<mapsto> JStr ''resolved'']" and st = "''resolved''"
      and s = cloud_taken and tn = "''incidents''"
      and c = "''x''" and m = "''x''"
      and e = "RuntimeError ''Missing required environment variable: INCIDENTS_TABLE_NAME''"
      and ?s1.0 = cloud_taken and evc = event_create and dc = payload_ex and ?s2.0 = cloud_taken
      and evg = event_get and ?s3.0 = cloud_taken and evl = event_list and ?s4.0 = cloud_taken]
  have three: "update_lambda_handler world_noenv (Some event_update) cloud_taken =
     (Inl (RuntimeError ''Missing required environment variable: INCIDENTS_TABLE_NAME''),
      cloud_taken) \<and>
   create_lambda_handler world_noenv (Some event_create) cloud_taken =
     (Inl (RuntimeError ''Missing required environment variable: INCIDENTS_TABLE_NAME''),
      cloud_taken) \<and>
   get_lambda_handler world_noenv (Some event_get) cloud_taken =
     (Inl (RuntimeError ''Missing required environment variable: INCIDENTS_TABLE_NAME''),
      cloud_taken) \<and>
   list_lambda_handler world_noenv (Some event_list) cloud_taken =
     (Inl (RuntimeError ''Missing required environment variable: INCIDENTS_TABLE_NAME''),
      cloud_taken)"
    by (simp add: ex_update_event ex_parse_throttled ex_valid_update ex_valid ev
        ex_noenv_calls)
  from one two three show ?thesis
    by (simp add: ex_update_event ex_parse_update ex_valid_update absent ex_env ex_fault)
qed

text \<open>
  C3 as stated fails twice: an update of an absent id answers 500, not 404, when the
  store is throttled; and a failure of the store layer that is not a \<open>ClientError\<close>
  (here the \<open>RuntimeError\<close> of \<^verbatim>\<open>_get_env_var\<close>) is not answered with 500 but leaves the
  handler as an exception.
\<close>

theorem store_failures_counterexample:
  "map_of (table cloud_empty) id_ex = None \<and>
   fst (update_lambda_handler world_throttled (Some event_update) cloud_empty) =
     Inr (answer 500 [''error'' \<mapsto> JStr ''InternalServerError'',
                  ''message'' \<mapsto> JStr ''Failed to update incident status'',
                  ''detail'' \<mapsto> JStr ''rate exceeded'']) \<and>
   fst (update_lambda_handler world_noenv (Some event_update) cloud_taken) =
     Inl (RuntimeError ''Missing required environment variable: INCIDENTS_TABLE_NAME'')"
proof -
  have a: "map_of (table cloud_empty) id_ex = None" by (simp add: cloud_empty_def)
  have b: "update_incident_status world_noenv id_ex ''resolved'' ''2024-05-01T12:00:00+00:00''
      cloud_taken =
      (Inl (RuntimeError ''Missing required environment variable: INCIDENTS_TABLE_NAME''),
       cloud_taken)"
    by (simp add: update_incident_status_def get_incidents_table_def get_env_var_def
        world_noenv_def)
  show ?thesis
    by (simp add: a b ex_now ex_throttled_calls
        update_valid_unfold [OF ex_update_event(1-4) ex_parse_throttled(1) ex_valid_update
          ex_update_event(5)]
        update_valid_unfold [OF ex_update_event(1-4) ex_parse_throttled(3) ex_valid_update
          ex_update_event(5)])
qed

section \<open>Rejections come before the store\<close>

text \<open>
  C7. Whenever one of the create, get, list and update handlers answers 405 or 400, the
  table and the log of calls to the store and the publisher are what they were: no store
  read or write was made. Such an answer is 405 \<open>MethodNotAllowed\<close>, 400 \<open>BadRequest\<close>
  or 400 \<open>ValidationError\<close>. In particular a method other than POST (and OPTIONS) on
  the create route is answered 405, and an update whose \<open>status\<close> is outside the four
  allowed values is answered 400 \<open>ValidationError\<close>, both with the state untouched.
\<close>

theorem rejected_before_store:
  "((out = create_lambda_handler w ev s \<or> out = get_lambda_handler w ev s \<or>
     out = list_lambda_handler w ev s \<or> out = update_lambda_handler w ev s) \<and>
    out = (Inr r, s') \<and> (statusCode r = 405 \<or> statusCode r = 400) \<longrightarrow>
      s' = s \<and>
      (statusCode r = 405 \<and> body r ''error'' = Some (JStr ''MethodNotAllowed'') \<or>
       statusCode r = 400 \<and> body r ''error'' = Some (JStr ''BadRequest'') \<or>
       statusCode r = 400 \<and> body r ''error'' = Some (JStr ''ValidationError'')))
   \<and> (httpMethod evc = Some meth \<and> meth \<noteq> ''OPTIONS'' \<and> meth \<noteq> ''POST'' \<longrightarrow>
        create_lambda_handler w (Some evc) s =
          (Inr (answer 405 [''error'' \<mapsto> JStr ''MethodNotAllowed'',
                        ''message'' \<mapsto> JStr ''Only POST is supported for this resource'']), s))
   \<and> ((httpMethod evu = Some ''PATCH'' \<or> httpMethod evu = Some ''PUT'') \<and>
      pathParameters evu = Some ps \<and> ps ''id'' = Some k \<and> k \<noteq> [] \<and>
      parse_json_body w evu = Inr (JDict d) \<and> d ''status'' = Some (JStr st) \<and>
      st \<notin> {''open'', ''in_progress'', ''resolved'', ''closed''} \<longrightarrow>
        update_lambda_handler w (Some evu) s =
          (Inr (answer 400 [''error'' \<mapsto> JStr ''ValidationError'',
                        ''message'' \<mapsto> JStr
                           ''status must be one of: closed, in_progress, open, resolved'']), s))"
proof (intro conjI impI)
  assume a: "(out = create_lambda_handler w ev s \<or> out = get_lambda_handler w ev s \<or>
     out = list_lambda_handler w ev s \<or> out = update_lambda_handler w ev s) \<and>
    out = (Inr r, s') \<and> (statusCode r = 405 \<or> statusCode r = 400)"
  then have "answer_shape s r s'"
    using create_outcomes [of w ev s r s'] get_outcomes [of w ev s r s']
      list_outcomes [of w ev s r s'] update_outcomes [of w ev s r s'] by auto
  with a show "s' = s" by (auto simp: answer_shape_def)
  from \<open>answer_shape s r s'\<close> a
  show "statusCode r = 405 \<and> body r ''error'' = Some (JStr ''MethodNotAllowed'') \<or>
       statusCode r = 400 \<and> body r ''error'' = Some (JStr ''BadRequest'') \<or>
       statusCode r = 400 \<and> body r ''error'' = Some (JStr ''ValidationError'')"
    by (auto simp: answer_shape_def error_body_def)
next
  assume "httpMethod evc = Some meth \<and> meth \<noteq> ''OPTIONS'' \<and> meth \<noteq> ''POST''"
  then show "create_lambda_handler w (Some evc) s =
          (Inr (answer 405 [''error'' \<mapsto> JStr ''MethodNotAllowed'',
                        ''message'' \<mapsto> JStr ''Only POST is supported for this resource'']), s)"
    by (simp add: create_lambda_handler_def is_options_request_def or_empty_def)
next
  assume a: "(httpMethod evu = Some ''PATCH'' \<or> httpMethod evu = Some ''PUT'') \<and>
      pathParameters evu = Some ps \<and> ps ''id'' = Some k \<and> k \<noteq> [] \<and>
      parse_json_body w evu = Inr (JDict d) \<and> d ''status'' = Some (JStr st) \<and>
      st \<notin> {''open'', ''in_progress'', ''resolved'', ''closed''}"
  then have v: "update_validate_payload (JDict d) = Inr (False, Some (validation_error
      ''status must be one of: closed, in_progress, open, resolved''))"
    by (simp add: update_validate_payload_def)
  from a have "httpMethod evu \<in> {Some ''PATCH'', Some ''PUT''}" "httpMethod evu \<noteq> Some ''OPTIONS''"
    by auto
  with a v show "update_lambda_handler w (Some evu) s =
          (Inr (answer 400 [''error'' \<mapsto> JStr ''ValidationError'',
                        ''message'' \<mapsto> JStr
                           ''status must be one of: closed, in_progress, open, resolved'']), s)"
    by (simp add: update_lambda_handler_def is_options_request_def or_empty_def path_id_def
        validation_error_def)
qed


text \<open>
  The theorem at an update to the status \<open>bogus\<close> and at a DELETE on the create route,
  while the store is throttled.
\<close>

theorem rejected_before_store_witness:
  "httpMethod event_delete = Some ''DELETE'' \<and> ''DELETE'' \<noteq> ''OPTIONS'' \<and> ''DELETE'' \<noteq> ''POST'' \<and>
   create_lambda_handler world_throttled (Some event_delete) cloud_taken =
     (Inr (answer 405 [''error'' \<mapsto> JStr ''MethodNotAllowed'',
                   ''message'' \<mapsto> JStr ''Only POST is supported for this resource'']),
      cloud_taken) \<and>
   (httpMethod event_update_bogus = Some ''PATCH'' \<or> httpMethod event_update_bogus = Some ''PUT'') \<and>
   parse_json_body world_throttled event_update_bogus =
     Inr (JDict [''status'' \<mapsto> JStr ''bogus'']) \<and>
   ''bogus'' \<notin> {''open'', ''in_progress'', ''resolved'', ''closed''} \<and>
   update_lambda_handler world_throttled (Some event_update_bogus) cloud_taken =
     (Inr (answer 400 [''error'' \<mapsto> JStr ''ValidationError'',
                   ''message'' \<mapsto> JStr
                      ''status must be one of: closed, in_progress, open, resolved'']),
      cloud_taken) \<and>
   statusCode (answer 400
            [''error'' \<mapsto> JStr ''ValidationError'',
                   ''message'' \<mapsto> JStr
                      ''status must be one of: closed, in_progress, open, resolved'']) = 400"
proof -
  let ?r = "answer 400
            [''error'' \<mapsto> JStr ''ValidationError'',
                   ''message'' \<mapsto> JStr
                      ''status must be one of: closed, in_progress, open, resolved'']"
  have del: "httpMethod event_delete = Some ''DELETE''" by (simp add: event_delete_def)
  have upd: "httpMethod event_update_bogus = Some ''PATCH'' \<or>
      httpMethod event_update_bogus = Some ''PUT''"
    "pathParameters event_update_bogus = Some [''id'' \<mapsto> id_ex]"
    by (simp_all add: event_update_bogus_def event_update_def)
  have st: "''bogus'' \<notin> {''open'', ''in_progress'', ''resolved'', ''closed''}" by simp
  have code: "statusCode ?r = 400" by simp
  note inst = rejected_before_store [where w = world_throttled and s = cloud_taken
      and ev = "Some event_update_bogus" and r = ?r and s' = cloud_taken
      and out = "update_lambda_handler world_throttled (Some event_update_bogus) cloud_taken"
      and evc = event_delete and meth = "''DELETE''"
      and evu = event_update_bogus and ps = "[''id'' \<mapsto> id_ex]" and k = id_ex
      and d = "[''status'' \<mapsto> JStr ''bogus'']" and st = "''bogus''"]
  from inst have c: "create_lambda_handler world_throttled (Some event_delete) cloud_taken =
     (Inr (answer 405 [''error'' \<mapsto> JStr ''MethodNotAllowed'',
                   ''message'' \<mapsto> JStr ''Only POST is supported for this resource'']),
      cloud_taken)"
    by (simp add: del)
  from inst have u: "update_lambda_handler world_throttled (Some event_update_bogus) cloud_taken =
      (Inr ?r, cloud_taken)"
    using upd ex_parse_bogus ex_update_event(3,4) by simp
  from inst u code have "cloud_taken = cloud_taken \<and>
      body ?r ''error'' = Some (JStr ''ValidationError'')"
    by simp
  with c u del upd ex_parse_bogus st code show ?thesis by simp
qed
section \<open>The envelope of every answer\<close>




end
